theory Spec2Isabelle
  imports Complex_Main "HOL-Library.AList" "HOL-Library.Word"
begin

unbundle bit_operations_syntax

section \<open>Strings and ordered maps of the runtime\<close>

text \<open>
  A JavaScript string is a sequence of UTF-16 code units; \<open>length\<close> counts code units.
  A Hebrew letter (U+0590 to U+05FF) is one code unit, so code units are numbers here and
  ASCII literals are injected with \<open>js\<close>.
\<close>

type_synonym jsstring = "nat list"

definition js :: "string \<Rightarrow> jsstring" where
  "js s = map of_char s"

text \<open>
  A JavaScript \<open>Map\<close> iterates in insertion order: \<open>set\<close> on a present key replaces the
  value in place, \<open>set\<close> on a new key appends, \<open>delete\<close> removes the key. An association
  list with \<open>AList.update\<close> and \<open>AList.delete\<close> has exactly this behaviour; the head of the
  list is what \<open>keys().next().value\<close> yields.
\<close>

type_synonym ('k, 'v) jsmap = "('k \<times> 'v) list"

definition first_key :: "('k, 'v) jsmap \<Rightarrow> 'k option" where
  "first_key m = (case m of [] \<Rightarrow> None | (k, _) # _ \<Rightarrow> Some k)"

section \<open>The shared TTL cache\<close>

text \<open>
  \<^verbatim>\<open>type CacheEntry<T> = { value: T; expiresAt: number }\<close>; times are milliseconds.
  The clock \<open>now()\<close> is an argument of each operation.
\<close>

record 'v CacheEntry =
  "value" :: 'v
  expiresAt :: int

type_synonym 'v cache = "(jsstring, 'v CacheEntry) jsmap"

definition getCache :: "'v cache \<Rightarrow> jsstring \<Rightarrow> int \<Rightarrow> 'v option \<times> 'v cache" where
  "getCache cache key now =
     (case map_of cache key of
        None \<Rightarrow> (None, cache)
      | Some hit \<Rightarrow>
          if expiresAt hit < now then (None, AList.delete key cache)
          else (Some (value hit), cache))"

text \<open>
  \<open>setCache\<close> trims once, with \<open>if\<close>: one insertion adds at most one key. The guard
  \<open>if (firstKey)\<close> skips the deletion for a missing or empty first key.
\<close>

definition setCache :: "'v cache \<Rightarrow> jsstring \<Rightarrow> 'v \<Rightarrow> int \<Rightarrow> int \<Rightarrow> 'v cache" where
  "setCache cache key v ttlMs now =
     (let cache1 = AList.update key \<lparr>value = v, expiresAt = now + ttlMs\<rparr> cache
      in if length cache1 > 500
         then (case first_key cache1 of
                 None \<Rightarrow> cache1
               | Some firstKey \<Rightarrow> if firstKey \<noteq> [] then AList.delete firstKey cache1 else cache1)
         else cache1)"





section \<open>The web fetch cache\<close>

record FetchCacheEntry =
  url :: jsstring
  title :: jsstring
  "text" :: jsstring
  metadata :: "(jsstring \<times> jsstring) list"
  status :: nat
  contentType :: "jsstring option"
  bytes :: nat
  etag :: "jsstring option"
  lastModified :: "jsstring option"
  savedAt :: int

type_synonym fetch_cache = "(jsstring, FetchCacheEntry) jsmap"


text \<open>\<open>CACHE_TTL_MS\<close> is configuration too and is passed as \<open>ttl\<close>.\<close>

definition fetchCacheGet ::
  "int \<Rightarrow> fetch_cache \<Rightarrow> jsstring \<Rightarrow> int \<Rightarrow> FetchCacheEntry option \<times> fetch_cache" where
  "fetchCacheGet ttl cache key now =
     (case map_of cache key of
        None \<Rightarrow> (None, cache)
      | Some ent \<Rightarrow>
          if now - savedAt ent > ttl then (None, AList.delete key cache)
          else (Some ent, AList.update key ent (AList.delete key cache)))"









text \<open>Keys of a store: pairwise distinct, as in any \<open>Map\<close>, and non-empty strings.\<close>

definition keys_ok :: "(jsstring, 'v) jsmap \<Rightarrow> bool" where
  "keys_ok m \<longleftrightarrow> distinct (map fst m) \<and> [] \<notin> fst ` set m"

text \<open>An entry as \<open>fetch\<close> saves it, for the examples.\<close>

definition entry0 :: FetchCacheEntry where
  "entry0 = \<lparr>url = js ''https://example.com/'', title = js ''Example'', text = js ''body'',
     metadata = [], status = 200, contentType = Some (js ''text/html''), bytes = 4,
     etag = None, lastModified = None, savedAt = 1000\<rparr>"

section \<open>String operations of the runtime\<close>

text \<open>
  \<open>String.prototype.trim\<close> and the class \<^verbatim>\<open>\s\<close> use the same set: WhiteSpace and
  LineTerminator of ECMAScript.
\<close>

definition is_space :: "nat \<Rightarrow> bool" where
  "is_space c \<longleftrightarrow>
     c \<in> {0x09, 0x0A, 0x0B, 0x0C, 0x0D, 0x20, 0xA0, 0x1680, 0x2028, 0x2029, 0x202F, 0x205F,
          0x3000, 0xFEFF} \<or> (0x2000 \<le> c \<and> c \<le> 0x200A)"

definition trim :: "jsstring \<Rightarrow> jsstring" where
  "trim s = rev (dropWhile is_space (rev (dropWhile is_space s)))"

text \<open>
  \<open>String.prototype.toLowerCase\<close>. On a string of ASCII code units it maps \<open>A\<close>..\<open>Z\<close> to
  \<open>a\<close>..\<open>z\<close> and leaves every other unit. On any other string the result follows the
  Unicode case mapping of the runtime, which is not per code unit (U+212A becomes \<open>k\<close>,
  U+0130 becomes \<open>i\<close> followed by U+0307, a capital sigma depends on what follows it); that
  table is no part of the program and is the argument \<open>tbl\<close>.
\<close>

type_synonym case_mapping = "jsstring \<Rightarrow> jsstring"

definition lower_unit :: "nat \<Rightarrow> nat" where
  "lower_unit c = (if 0x41 \<le> c \<and> c \<le> 0x5A then c + 0x20 else c)"

definition toLowerCase :: "case_mapping \<Rightarrow> jsstring \<Rightarrow> jsstring" where
  "toLowerCase tbl s = (if list_all (\<lambda>c. c < 0x80) s then map lower_unit s else tbl s)"

text \<open>
  For the examples: the case mapping on strings of ASCII and Hebrew code units, the
  Kelvin sign and the capital I with a dot.
\<close>

definition lower0 :: case_mapping where
  "lower0 s =
     concat (map (\<lambda>c. if c = 0x212A then [0x6B] else if c = 0x0130 then [0x69, 0x0307]
                       else [lower_unit c]) s)"

definition startsWith :: "jsstring \<Rightarrow> jsstring \<Rightarrow> bool" where
  "startsWith s p \<longleftrightarrow> take (length p) s = p"

fun str_includes :: "jsstring \<Rightarrow> jsstring \<Rightarrow> bool" where
  "str_includes [] sub = (sub = [])"
| "str_includes (c # cs) sub = (startsWith (c # cs) sub \<or> str_includes cs sub)"

subsection \<open>URI encoding\<close>

text \<open>
  \<open>encodeURIComponent\<close> reads the string as UTF-16, throws a URIError on a surrogate that
  is not part of a pair (\<open>None\<close>), keeps the unreserved characters and writes every other
  code point as the bytes of its UTF-8 encoding, each as \<open>%\<close> and two upper-case
  hexadecimal digits.
\<close>

fun code_points :: "jsstring \<Rightarrow> nat list option" where
  "code_points [] = Some []"
| "code_points [c] = (if 0xD800 \<le> c \<and> c \<le> 0xDFFF then None else Some [c])"
| "code_points (c # d # cs) =
     (if 0xD800 \<le> c \<and> c \<le> 0xDBFF then
        (if 0xDC00 \<le> d \<and> d \<le> 0xDFFF
         then map_option ((#) (0x10000 + (c - 0xD800) * 0x400 + (d - 0xDC00))) (code_points cs)
         else None)
      else if 0xDC00 \<le> c \<and> c \<le> 0xDFFF then None
      else map_option ((#) c) (code_points (d # cs)))"

definition utf8 :: "nat \<Rightarrow> nat list" where
  "utf8 cp =
     (if cp < 0x80 then [cp]
      else if cp < 0x800 then [0xC0 + cp div 0x40, 0x80 + cp mod 0x40]
      else if cp < 0x10000 then [0xE0 + cp div 0x1000, 0x80 + cp div 0x40 mod 0x40, 0x80 + cp mod 0x40]
      else [0xF0 + cp div 0x40000, 0x80 + cp div 0x1000 mod 0x40, 0x80 + cp div 0x40 mod 0x40,
            0x80 + cp mod 0x40])"

definition hex_digit :: "nat \<Rightarrow> nat" where
  "hex_digit n = (if n < 10 then 0x30 + n else 0x41 + (n - 10))"

definition uri_unreserved :: "nat \<Rightarrow> bool" where
  "uri_unreserved c \<longleftrightarrow>
     (0x41 \<le> c \<and> c \<le> 0x5A) \<or> (0x61 \<le> c \<and> c \<le> 0x7A) \<or> (0x30 \<le> c \<and> c \<le> 0x39)
     \<or> c \<in> {0x2D, 0x5F, 0x2E, 0x21, 0x7E, 0x2A, 0x27, 0x28, 0x29}"

definition encode_point :: "nat \<Rightarrow> jsstring" where
  "encode_point cp =
     (if uri_unreserved cp then [cp]
      else concat (map (\<lambda>b. [0x25, hex_digit (b div 16), hex_digit (b mod 16)]) (utf8 cp)))"

definition encodeURIComponent :: "jsstring \<Rightarrow> jsstring option" where
  "encodeURIComponent s = map_option (\<lambda>cps. concat (map encode_point cps)) (code_points s)"

subsection \<open>Regular expressions\<close>

text \<open>
  The patterns of the program use literals, classes, the dot, alternation, sequence and
  repetition. A class is a list of inclusive ranges of code units. \<open>after r s\<close> lists the
  rests of \<open>s\<close> that remain once \<open>r\<close> has matched a prefix of it; \<open>RegExp.prototype.test\<close>
  without anchors succeeds when the pattern matches at some position.
\<close>

datatype rx =
    Eps
  | Cls "(nat \<times> nat) list"
  | NotCls "(nat \<times> nat) list"
  | Seq rx rx
  | Alt rx rx
  | Star rx

definition in_ranges :: "nat \<Rightarrow> (nat \<times> nat) list \<Rightarrow> bool" where
  "in_ranges c rs = list_ex (\<lambda>(lo, hi). lo \<le> c \<and> c \<le> hi) rs"

text \<open>An iteration of a starred pattern that consumes nothing is not repeated.\<close>

fun star_iter :: "(jsstring \<Rightarrow> jsstring list) \<Rightarrow> nat \<Rightarrow> jsstring \<Rightarrow> jsstring list" where
  "star_iter f 0 s = [s]"
| "star_iter f (Suc n) s =
     s # concat (map (star_iter f n) (filter (\<lambda>t. length t < length s) (f s)))"

primrec after :: "rx \<Rightarrow> jsstring \<Rightarrow> jsstring list" where
  "after Eps s = [s]"
| "after (Cls rs) s = (case s of [] \<Rightarrow> [] | c # t \<Rightarrow> if in_ranges c rs then [t] else [])"
| "after (NotCls rs) s = (case s of [] \<Rightarrow> [] | c # t \<Rightarrow> if in_ranges c rs then [] else [t])"
| "after (Seq a b) s = concat (map (after b) (after a s))"
| "after (Alt a b) s = after a s @ after b s"
| "after (Star a) s = star_iter (after a) (length s) s"

fun rx_test :: "rx \<Rightarrow> jsstring \<Rightarrow> bool" where
  "rx_test r [] = (after r [] \<noteq> [])"
| "rx_test r (c # cs) = (after r (c # cs) \<noteq> [] \<or> rx_test r cs)"

text \<open>Pattern builders: a literal, a literal under the flag \<open>i\<close>, the dot, \<^verbatim>\<open>\s\<close>, \<^verbatim>\<open>\d\<close>.\<close>

fun lit :: "jsstring \<Rightarrow> rx" where
  "lit [] = Eps"
| "lit [c] = Cls [(c, c)]"
| "lit (c # cs) = Seq (Cls [(c, c)]) (lit cs)"






subsection \<open>JSON values\<close>

text \<open>Values of parsed JSON; \<open>JUndefined\<close> is what reading an absent field yields.\<close>

datatype json =
    JUndefined
  | JNull
  | JBool bool
  | JNum real
  | JStr jsstring
  | JArr "json list"
  | JObj "(jsstring \<times> json) list"

fun truthy :: "json \<Rightarrow> bool" where
  "truthy JUndefined = False"
| "truthy JNull = False"
| "truthy (JBool b) = b"
| "truthy (JNum x) = (x \<noteq> 0)"
| "truthy (JStr s) = (s \<noteq> [])"
| "truthy (JArr _) = True"
| "truthy (JObj _) = True"

text \<open>
  Reading a property, \<open>x.name\<close> or \<open>x?.name\<close>, for the names the program reads: none of them
  is a built-in property of an array, a string or \<open>Object.prototype\<close>, so only an object
  that has the field yields a value.
\<close>

fun get_field :: "json \<Rightarrow> jsstring \<Rightarrow> json" where
  "get_field (JObj fs) name = (case map_of fs name of Some v \<Rightarrow> v | None \<Rightarrow> JUndefined)"
| "get_field _ name = JUndefined"

text \<open>
  \<open>String(v)\<close> is \<open>v\<close> itself for a string; how the runtime prints any other value is the
  argument \<open>print\<close>.
\<close>

definition String_of :: "(json \<Rightarrow> jsstring) \<Rightarrow> json \<Rightarrow> jsstring" where
  "String_of print v = (case v of JStr s \<Rightarrow> s | _ \<Rightarrow> print v)"

section \<open>The chat UI server\<close>

text \<open>
  What the server does to the outside: it calls \<open>runChain\<close> with a module, arguments,
  model and the flag \<open>requiresKey\<close> (the one place that spawns a chain subprocess), or it
  posts a JSON-RPC request to the MCP endpoint (\<open>callMcp\<close>).
\<close>

datatype effect =
    RunChain jsstring "json list" json bool
  | McpPost jsstring json

record http_response =
  res_status :: nat
  res_body :: json

text \<open>
  The environment answers the calls: \<open>runChain\<close> resolves with the subprocess's output or
  rejects, \<open>callMcp\<close> resolves with the \<open>result\<close> member or rejects; an error is its message.
  \<open>formatStructured\<close> renders a tool result and is passed in as well, and so is the case
  mapping of the runtime.
\<close>

record chat_env =
  runChain :: "jsstring \<Rightarrow> json list \<Rightarrow> json \<Rightarrow> bool \<Rightarrow> jsstring + jsstring"
  callMcp :: "jsstring \<Rightarrow> json \<Rightarrow> jsstring + json"
  formatStructured :: "json \<Rightarrow> jsstring"
  lowerCase :: case_mapping

definition educational_rx :: rx where
  "educational_rx =
     Alt (lit (js ''help me learn''))
    (Alt (lit (js ''learn''))
    (Alt (lit (js ''study''))
    (Alt (lit (js ''chavruta'')) (lit (js ''teach me'')))))"

definition educational :: "case_mapping \<Rightarrow> jsstring \<Rightarrow> bool" where
  "educational tbl message = rx_test educational_rx (toLowerCase tbl message)"

definition multipart :: "jsstring \<Rightarrow> bool" where
  "multipart message \<longleftrightarrow>
     length (filter (\<lambda>c. c = 0x3F) message) > 1
     \<or> str_includes message (js '','') \<or> str_includes message (js '' and '')"

text \<open>The mode after \<^verbatim>\<open>if (!mode) mode = educational || multipart ? ... : ...\<close>.\<close>

definition effective_mode :: "case_mapping \<Rightarrow> json \<Rightarrow> jsstring \<Rightarrow> json" where
  "effective_mode tbl rawMode message =
     (if \<not> truthy rawMode
      then JStr (if educational tbl message \<or> multipart message
                 then js ''guided_chavruta'' else js ''auto_explain'')
      else rawMode)"

definition server_error :: "jsstring \<Rightarrow> http_response" where
  "server_error msg =
     \<lparr>res_status = 500,
      res_body = JObj [(js ''error'', JStr (if msg \<noteq> [] then msg else js ''Unknown error''))]\<rparr>"

definition ok_json :: "json \<Rightarrow> http_response" where
  "ok_json b = \<lparr>res_status = 200, res_body = b\<rparr>"

definition is_nonempty_array :: "json \<Rightarrow> bool" where
  "is_nonempty_array v = (case v of JArr xs \<Rightarrow> xs \<noteq> [] | _ \<Rightarrow> False)"

text \<open>The body of the \<open>try\<close> block of the handler, for a message that passed the check.\<close>

definition chat_dispatch ::
  "chat_env \<Rightarrow> jsstring \<Rightarrow> json \<Rightarrow> json \<Rightarrow> json \<Rightarrow> http_response \<times> effect list" where
  "chat_dispatch env message model rawMode commentators =
     (let mode = effective_mode (lowerCase env) rawMode message in
      if mode = JStr (js ''guided_chavruta'') then
        (case runChain env (js ''chains.guided_chavruta'') [JStr message] model False of
           Inl err \<Rightarrow> server_error err
         | Inr output \<Rightarrow>
             ok_json (JObj [(js ''response'', JStr output),
                            (js ''metadata'', JObj [(js ''mode'', mode), (js ''model'', model)])]),
         [RunChain (js ''chains.guided_chavruta'') [JStr message] model False])
      else if mode = JStr (js ''insight_layers'') then
        (let argsObj = JObj ([(js ''ref'', JStr message)]
                             @ (if is_nonempty_array commentators
                                then [(js ''commentators'', commentators)] else []));
             params = JObj [(js ''name'', JStr (js ''insight_layers'')), (js ''arguments'', argsObj)]
         in (case callMcp env (js ''tools/call'') params of
               Inl err \<Rightarrow> server_error err
             | Inr result \<Rightarrow>
                 (let sc = get_field result (js ''structuredContent'');
                      structured = (if truthy sc then sc
                                    else if truthy result then result else JObj [])
                  in ok_json (JObj [(js ''response'', JStr (formatStructured env structured)),
                                    (js ''metadata'', JObj [(js ''mode'', mode)])])),
             [McpPost (js ''tools/call'') params]))
      else
        (let args = [JStr message] @ (if truthy model then [JStr (js ''--model''), model] else [])
         in (case runChain env (js ''chains.auto_explain'') args model True of
               Inl err \<Rightarrow> server_error err
             | Inr output \<Rightarrow>
                 ok_json (JObj [(js ''response'', JStr output),
                                (js ''metadata'',
                                 JObj [(js ''mode'', JStr (js ''auto_explain'')), (js ''model'', model)])]),
             [RunChain (js ''chains.auto_explain'') args model True])))"

definition message_required :: http_response where
  "message_required =
     \<lparr>res_status = 400, res_body = JObj [(js ''error'', JStr (js ''Message is required.''))]\<rparr>"

text \<open>
  \<^verbatim>\<open>POST /chat\<close>. The check is
  \<^verbatim>\<open>!message || typeof message !== 'string' || !message.trim()\<close>.
\<close>

definition chat :: "chat_env \<Rightarrow> json \<Rightarrow> http_response \<times> effect list" where
  "chat env body =
     (let message = get_field body (js ''message'');
          model = get_field body (js ''model'');
          rawMode = get_field body (js ''mode'');
          commentators = get_field body (js ''commentators'')
      in case message of
           JStr m \<Rightarrow>
             if \<not> truthy message \<or> trim m = [] then (message_required, [])
             else chat_dispatch env m model rawMode commentators
         | _ \<Rightarrow> (message_required, []))"

subsection \<open>The cached tool list\<close>

record tool_info =
  tool_name :: json
  tool_title :: json
  tool_description :: json

record tools_state =
  cachedTools :: "tool_info list option"
  cachedToolsTimestamp :: int

definition initial_tools_state :: tools_state where
  "initial_tools_state = \<lparr>cachedTools = None, cachedToolsTimestamp = 0\<rparr>"

definition REFRESH_MS :: int where
  "REFRESH_MS = 60000"

text \<open>
  One element of \<open>tools.map(...)\<close>: reading a property of \<open>null\<close> or \<open>undefined\<close> throws a
  TypeError, reading one of any other value yields the property or \<open>undefined\<close>.
\<close>

definition map_tool :: "json \<Rightarrow> jsstring + tool_info" where
  "map_tool tool =
     (if tool = JNull \<or> tool = JUndefined then Inl (js ''TypeError'')
      else Inr \<lparr>tool_name = get_field tool (js ''name''),
                tool_title = (if truthy (get_field tool (js ''title''))
                              then get_field tool (js ''title'') else get_field tool (js ''name'')),
                tool_description = (if truthy (get_field tool (js ''description''))
                                    then get_field tool (js ''description'') else JStr [])\<rparr>)"

fun map_tools :: "json list \<Rightarrow> jsstring + tool_info list" where
  "map_tools [] = Inr []"
| "map_tools (t # ts) =
     (case map_tool t of
        Inl e \<Rightarrow> Inl e
      | Inr x \<Rightarrow> (case map_tools ts of Inl e \<Rightarrow> Inl e | Inr xs \<Rightarrow> Inr (x # xs)))"

text \<open>
  The \<open>try\<close> block of \<open>listMcpTools\<close>, given the outcome of \<open>callMcp\<close>:
  \<^verbatim>\<open>const tools = result?.tools || []\<close>, then \<open>tools.map\<close>, which only arrays have.
\<close>

definition refresh_tools :: "jsstring + json \<Rightarrow> jsstring + tool_info list" where
  "refresh_tools outcome =
     (case outcome of
        Inl err \<Rightarrow> Inl err
      | Inr result \<Rightarrow>
          (let t = get_field result (js ''tools'') in
           if \<not> truthy t then Inr []
           else (case t of JArr ts \<Rightarrow> map_tools ts | _ \<Rightarrow> Inl (js ''TypeError''))))"

text \<open>
  \<open>listMcpTools\<close> at time \<open>now\<close>: its settled value (\<open>Inl\<close> would be a rejection), the
  module state afterwards and the requests it issued.
\<close>

definition listMcpTools ::
  "(jsstring + json) \<Rightarrow> int \<Rightarrow> tools_state \<Rightarrow> (jsstring + tool_info list) \<times> tools_state \<times> effect list" where
  "listMcpTools outcome now st =
     (case cachedTools st of
        Some ts \<Rightarrow>
          if now - cachedToolsTimestamp st < REFRESH_MS then (Inr ts, st, [])
          else (case refresh_tools outcome of
                  Inr new \<Rightarrow> (Inr new, \<lparr>cachedTools = Some new, cachedToolsTimestamp = now\<rparr>,
                              [McpPost (js ''tools/list'') JUndefined])
                | Inl err \<Rightarrow> (Inr [], st\<lparr>cachedTools := Some []\<rparr>,
                              [McpPost (js ''tools/list'') JUndefined]))
      | None \<Rightarrow>
          (case refresh_tools outcome of
             Inr new \<Rightarrow> (Inr new, \<lparr>cachedTools = Some new, cachedToolsTimestamp = now\<rparr>,
                         [McpPost (js ''tools/list'') JUndefined])
           | Inl err \<Rightarrow> (Inr [], st\<lparr>cachedTools := Some []\<rparr>,
                         [McpPost (js ''tools/list'') JUndefined])))"

text \<open>An environment for the examples: every call succeeds.\<close>

definition env0 :: chat_env where
  "env0 = \<lparr>runChain = (\<lambda>module args model requiresKey. Inr (js ''An answer.'')),
           callMcp = (\<lambda>method params. Inr (JObj [])),
           formatStructured = (\<lambda>structured. js ''{}''),
           lowerCase = lower0\<rparr>"

section \<open>The upstream client: retry and backoff\<close>

text \<open>
  How one attempt of \<open>fetchJsonWithRetry\<close> goes is decided by the network. Left alone,
  \<open>fetch\<close> rejects after \<open>h\<close> ms (a network error), or it resolves after \<open>h\<close> ms with a
  response, whose body the attempt then reads: that takes a further \<open>b\<close> ms and ends with
  parsed JSON, with the text of a response that is not ok (\<^verbatim>\<open>resp.text().catch(() => "")\<close>),
  or with the rejection of \<open>resp.json()\<close>. A server that never answers is any \<open>h\<close> of 7000 or
  more, since the attempt does not wait that long. The model takes \<open>b\<close> to be finite: the
  body read settles at some time.
\<close>

datatype body_outcome =
    BodyJson json
  | BodyNotOk nat jsstring
  | BodyBadJson

datatype fetch_outcome =
    Rejected nat jsstring
  | Responded nat nat body_outcome

datatype fetch_error =
    HttpStatus nat jsstring
  | JsonError
  | RequestFailed jsstring
  | AbortError

text \<open>
  Every attempt arms \<^verbatim>\<open>setTimeout(() => controller.abort(), 7000)\<close> before the request;
  \<open>clearTimeout(t)\<close> follows \<^verbatim>\<open>await fetch(url, options)\<close> at once. So the timer fires only
  while \<open>fetch\<close> is pending, and \<open>fetch\<close> then rejects with an AbortError; a timer and a
  response due at the same instant count as the timer first.
\<close>

definition ABORT_MS :: nat where
  "ABORT_MS = 7000"

text \<open>\<^verbatim>\<open>throw new Error(`HTTP ${resp.status} ${txt?.slice(0,200)}`)\<close> for a response that is not ok.\<close>

fun body_result :: "body_outcome \<Rightarrow> fetch_error + json" where
  "body_result (BodyJson j) = Inr j"
| "body_result (BodyNotOk st body) = Inl (HttpStatus st (take 200 body))"
| "body_result BodyBadJson = Inl JsonError"

fun outcome_result :: "fetch_outcome \<Rightarrow> fetch_error + json" where
  "outcome_result (Rejected h e) = Inl (if h < ABORT_MS then RequestFailed e else AbortError)"
| "outcome_result (Responded h b r) = (if h < ABORT_MS then body_result r else Inl AbortError)"

text \<open>
  What a call does, in order: it arms the timer, issues the request and waits for \<open>fetch\<close>
  to settle; the timer fires, or else the response arrives, the timer is cleared and the
  body is read. Between attempts it sleeps. The waits carry their length in ms.
\<close>

datatype io_event =
    StartAbortTimer nat
  | Fetch
  | AwaitFetch nat
  | Abort
  | ClearTimer
  | AwaitBody nat
  | Sleep nat

fun attempt_events :: "fetch_outcome \<Rightarrow> io_event list" where
  "attempt_events (Rejected h e) =
     (if h < ABORT_MS then [StartAbortTimer ABORT_MS, Fetch, AwaitFetch h]
      else [StartAbortTimer ABORT_MS, Fetch, AwaitFetch ABORT_MS, Abort])"
| "attempt_events (Responded h b r) =
     (if h < ABORT_MS then [StartAbortTimer ABORT_MS, Fetch, AwaitFetch h, ClearTimer, AwaitBody b]
      else [StartAbortTimer ABORT_MS, Fetch, AwaitFetch ABORT_MS, Abort])"

text \<open>
  The loop \<^verbatim>\<open>for (let attempt = 0; attempt <= retries; attempt++)\<close>; \<open>env n\<close> is what the
  network does on attempt \<open>n\<close>. After the loop, \<open>throw lastErr\<close>. Every call site passes a
  \<open>URL\<close> or a literal address, so \<open>new URL(url)\<close> inside the loop does not throw.
\<close>

function fetch_loop ::
  "(nat \<Rightarrow> fetch_outcome) \<Rightarrow> nat \<Rightarrow> nat \<Rightarrow> nat \<Rightarrow> fetch_error option
     \<Rightarrow> (fetch_error option + json) \<times> io_event list" where
  "fetch_loop env retries backoffMs attempt lastErr =
     (if attempt \<le> retries then
        (case outcome_result (env attempt) of
           Inr j \<Rightarrow> (Inr j, attempt_events (env attempt))
         | Inl err \<Rightarrow>
             (let rest = fetch_loop env retries backoffMs (Suc attempt) (Some err)
              in (fst rest,
                  attempt_events (env attempt)
                  @ (if attempt < retries then [Sleep (backoffMs * 2 ^ attempt)] else [])
                  @ snd rest)))
      else (Inl lastErr, []))"
  by pat_completeness auto
termination
  by (relation "measure (\<lambda>(env, retries, backoffMs, attempt, lastErr). Suc retries - attempt)") auto

declare fetch_loop.simps [simp del]

text \<open>Every call site leaves \<open>retries = 2\<close> and \<open>backoffMs = 400\<close> at their defaults.\<close>

definition fetchJsonWithRetry ::
  "(nat \<Rightarrow> fetch_outcome) \<Rightarrow> (fetch_error option + json) \<times> io_event list" where
  "fetchJsonWithRetry env = fetch_loop env 2 400 0 None"

text \<open>
  Observers of a trace: the sleeps in order; for every request the timer armed
  immediately before it, if any; how long each request was awaited; and the attempts
  with the time each took, from arming the timer to the end of its \<open>try\<close> block.
\<close>

fun sleeps :: "io_event list \<Rightarrow> nat list" where
  "sleeps [] = []"
| "sleeps (Sleep ms # tr) = ms # sleeps tr"
| "sleeps (_ # tr) = sleeps tr"

fun request_timers :: "io_event list \<Rightarrow> nat option list" where
  "request_timers [] = []"
| "request_timers (StartAbortTimer ms # Fetch # tr) = Some ms # request_timers tr"
| "request_timers (Fetch # tr) = None # request_timers tr"
| "request_timers (_ # tr) = request_timers tr"

fun fetch_waits :: "io_event list \<Rightarrow> nat list" where
  "fetch_waits [] = []"
| "fetch_waits (AwaitFetch ms # tr) = ms # fetch_waits tr"
| "fetch_waits (_ # tr) = fetch_waits tr"

fun wait_time :: "io_event list \<Rightarrow> nat" where
  "wait_time [] = 0"
| "wait_time (AwaitFetch ms # tr) = ms + wait_time tr"
| "wait_time (AwaitBody ms # tr) = ms + wait_time tr"
| "wait_time (StartAbortTimer ms # tr) = 0"
| "wait_time (Sleep ms # tr) = 0"
| "wait_time (_ # tr) = wait_time tr"

fun attempt_times :: "io_event list \<Rightarrow> nat list" where
  "attempt_times [] = []"
| "attempt_times (StartAbortTimer ms # tr) = wait_time tr # attempt_times tr"
| "attempt_times (_ # tr) = attempt_times tr"

text \<open>For the examples: a server whose response arrives after one second and whose body
  takes eight more, and one that does not answer.\<close>

definition slow_body :: "nat \<Rightarrow> fetch_outcome" where
  "slow_body n = Responded 1000 8000 (BodyJson JNull)"

definition no_answer :: "nat \<Rightarrow> fetch_outcome" where
  "no_answer n = Rejected 30000 (js ''socket hang up'')"

definition busy_once :: "nat \<Rightarrow> fetch_outcome" where
  "busy_once n =
     (if n = 0 then Responded 120 5 (BodyNotOk 503 (js ''busy'')) else Responded 120 5 (BodyJson JNull))"

section \<open>The web research tools\<close>

text \<open>
  A parsed \<open>URL\<close> object with the members the tools read. Parsing is the runtime's:
  \<open>new URL(s)\<close> is the argument \<open>parse\<close>, with \<open>None\<close> where it throws.
\<close>

record URL =
  protocol :: jsstring
  username :: jsstring
  password :: jsstring
  hostname :: jsstring
  origin :: jsstring
  pathname :: jsstring
  href :: jsstring

text \<open>
  The settings read from the environment. \<open>WEB_BLOCKLIST\<close> and \<open>WEB_ALLOWLIST\<close> are sets of
  host names, given here by their elements; \<open>max_results_setting\<close> is the parsed number
  that \<open>WEB_MAX_RESULTS\<close> clamps.
\<close>

record web_config =
  WEB_BLOCKLIST :: "jsstring list"
  WEB_ALLOWLIST :: "jsstring list"
  max_results_setting :: int
  ROBOTS_OBEY :: bool
  TAVILY_API_KEY :: jsstring
  SERPAPI_KEY :: jsstring
  BRAVE_API_KEY :: jsstring


definition isBlockedHost :: "web_config \<Rightarrow> jsstring \<Rightarrow> bool" where
  "isBlockedHost cfg host \<longleftrightarrow> length (remdups (WEB_BLOCKLIST cfg)) > 0 \<and> host \<in> set (WEB_BLOCKLIST cfg)"

definition isAllowedHost :: "web_config \<Rightarrow> jsstring \<Rightarrow> bool" where
  "isAllowedHost cfg host \<longleftrightarrow> length (remdups (WEB_ALLOWLIST cfg)) = 0 \<or> host \<in> set (WEB_ALLOWLIST cfg)"

subsection \<open>Web search\<close>











text \<open>For the examples: the default settings with a Tavily key, and a parser of two URLs.\<close>

definition cfg0 :: web_config where
  "cfg0 = \<lparr>WEB_BLOCKLIST = [], WEB_ALLOWLIST = [], max_results_setting = 10, ROBOTS_OBEY = False,
           TAVILY_API_KEY = js ''tvly-key'', SERPAPI_KEY = [], BRAVE_API_KEY = []\<rparr>"

definition example_url :: URL where
  "example_url =
     \<lparr>protocol = js ''https:'', username = [], password = [], hostname = js ''example.com'',
      origin = js ''https://example.com'', pathname = js ''/'', href = js ''https://example.com/''\<rparr>"

definition loopback_url :: URL where
  "loopback_url =
     \<lparr>protocol = js ''http:'', username = [], password = [], hostname = js ''127.0.0.1'',
      origin = js ''http://127.0.0.1'', pathname = js ''/'', href = js ''http://127.0.0.1/''\<rparr>"

definition parse0 :: "jsstring \<Rightarrow> URL option" where
  "parse0 s =
     (if s = js ''https://example.com/'' then Some example_url
      else if s = js ''http://127.0.0.1/'' then Some loopback_url
      else None)"






subsection \<open>The SSRF address check\<close>

text \<open>
  An address string as \<open>net.isIP\<close> classifies it: a dotted quad with its four numbers, a
  version 6 literal, or neither (\<open>dns.lookup\<close> failing leaves the empty string). A version 6
  literal consists of ASCII characters, on which \<open>toLowerCase\<close> maps \<open>A\<close>..\<open>Z\<close> to \<open>a\<close>..\<open>z\<close>.
\<close>

datatype ip_address =
    IPv4 nat nat nat nat
  | IPv6 jsstring
  | NotAnIP jsstring

text \<open>\<open>ipToInt\<close>: the four parts shifted and or-ed, then \<^verbatim>\<open>>>> 0\<close>, a 32-bit unsigned number.\<close>

definition ipToInt :: "nat \<Rightarrow> nat \<Rightarrow> nat \<Rightarrow> nat \<Rightarrow> 32 word" where
  "ipToInt a b c d =
     push_bit 24 (word_of_nat a) OR push_bit 16 (word_of_nat b) OR push_bit 8 (word_of_nat c)
     OR word_of_nat d"

definition inRange :: "32 word \<Rightarrow> 32 word \<Rightarrow> nat \<Rightarrow> bool" where
  "inRange n s maskBits =
     (let mask = (if maskBits = 0 then 0 else push_bit (32 - maskBits) (- 1)) :: 32 word
      in n AND mask = s AND mask)"

fun isPrivateOrReserved :: "ip_address \<Rightarrow> bool" where
  "isPrivateOrReserved (IPv4 a b c d) =
     (let n = ipToInt a b c d in
      inRange n (ipToInt 10 0 0 0) 8
      \<or> inRange n (ipToInt 172 16 0 0) 12
      \<or> inRange n (ipToInt 192 168 0 0) 16
      \<or> inRange n (ipToInt 127 0 0 0) 8
      \<or> inRange n (ipToInt 169 254 0 0) 16
      \<or> inRange n (ipToInt 0 0 0 0) 8)"
| "isPrivateOrReserved (IPv6 ip) =
     (let low = map lower_unit ip in
      startsWith low (js ''::1'') \<or> startsWith low (js ''fe80:'')
      \<or> startsWith low (js ''fc'') \<or> startsWith low (js ''fd''))"
| "isPrivateOrReserved (NotAnIP ip) = True"

subsection \<open>Web fetch: pre-flight and redirects\<close>

record http_reply =
  reply_status :: nat
  reply_location :: "jsstring option"

definition reply_ok :: "http_reply \<Rightarrow> bool" where
  "reply_ok r \<longleftrightarrow> 200 \<le> reply_status r \<and> reply_status r \<le> 299"

text \<open>
  The network and the runtime as the fetch tool meets them: the URL parser, with and
  without a base, the resolver, what \<open>robots.txt\<close> of an origin allows, and the reply to
  a \<open>GET\<close> (or the error \<open>fetch\<close> rejects with).
\<close>

record fetch_env =
  parse_url :: "jsstring \<Rightarrow> URL option"
  resolve_url :: "jsstring \<Rightarrow> URL \<Rightarrow> URL option"
  dns_lookup :: "jsstring \<Rightarrow> ip_address option"
  robots_txt_allows :: "URL \<Rightarrow> bool"
  http_get :: "URL \<Rightarrow> jsstring + http_reply"

datatype web_event =
    Acquire jsstring
  | Release jsstring
  | HttpGet jsstring
  | Count jsstring

text \<open>Errors: thrown by the tool with a message, for a response that is not ok, or the
  rejection of \<open>fetch\<close> or of the URL parser passed on.\<close>

datatype web_error =
    Err jsstring
  | HttpFailure nat
  | Passed jsstring

datatype fetched =
    FromCache FetchCacheEntry
  | Fetched URL http_reply

definition isRobotsAllowed :: "web_config \<Rightarrow> fetch_env \<Rightarrow> URL \<Rightarrow> bool" where
  "isRobotsAllowed cfg env u = (if \<not> ROBOTS_OBEY cfg then True else robots_txt_allows env u)"

text \<open>
  The body of the first \<open>try\<close> block of the loop: what it throws, if anything, and what it
  did before. The block's \<open>catch\<close> is empty.
\<close>

definition ssrf_block :: "fetch_env \<Rightarrow> URL \<Rightarrow> URL \<Rightarrow> (web_error + unit) \<times> web_event list" where
  "ssrf_block env u0 current =
     (let ip = (case dns_lookup env (hostname current) of None \<Rightarrow> NotAnIP [] | Some a \<Rightarrow> a) in
      if hostname current = js ''localhost'' \<or> isPrivateOrReserved ip
      then (Inl (Err (js ''Blocked: private or loopback address'')), [Release (hostname u0)])
      else (Inr (), []))"

definition is_redirect :: "nat \<Rightarrow> bool" where
  "is_redirect st \<longleftrightarrow> st \<in> {301, 302, 303, 307, 308}"

text \<open>
  The loop \<^verbatim>\<open>while (true)\<close> with its variables \<open>current\<close>, \<open>seen\<close> and \<open>redirectCount\<close>; the
  fetch cache is threaded through. It ends with the response, with the cached entry on a
  304, or with the error thrown.
\<close>

function redirect_loop ::
  "web_config \<Rightarrow> fetch_env \<Rightarrow> int \<Rightarrow> int \<Rightarrow> URL \<Rightarrow> jsstring \<Rightarrow> URL \<Rightarrow> jsstring list \<Rightarrow> nat
     \<Rightarrow> fetch_cache \<Rightarrow> (web_error + fetched) \<times> web_event list \<times> fetch_cache" where
  "redirect_loop cfg env ttl now u0 initialScheme current seen redirectCount fc =
     (let guard = snd (ssrf_block env u0 current) in
      if \<not> isRobotsAllowed cfg env current
      then (Inl (Err (js ''Blocked by robots.txt'')),
            guard @ [Count (js ''robotsBlocked''), Release (hostname u0)], fc)
      else
        (let cached = fetchCacheGet ttl fc (href current) now; fc1 = snd cached in
         case http_get env current of
           Inl e \<Rightarrow> (Inl (Passed e), guard @ [HttpGet (href current)], fc1)
         | Inr r \<Rightarrow>
             if is_redirect (reply_status r) then
               (case reply_location r of
                  None \<Rightarrow> (Inr (Fetched current r), guard @ [HttpGet (href current)], fc1)
                | Some loc \<Rightarrow>
                    if loc = [] then (Inr (Fetched current r), guard @ [HttpGet (href current)], fc1)
                    else
                      (case resolve_url env loc current of
                         None \<Rightarrow> (Inl (Passed (js ''Invalid URL'')), guard @ [HttpGet (href current)], fc1)
                       | Some nextUrl \<Rightarrow>
                           if isBlockedHost cfg (hostname nextUrl) \<or> \<not> isAllowedHost cfg (hostname nextUrl)
                           then (Inl (Err (js ''URL host is not allowed after redirect'')),
                                 guard @ [HttpGet (href current), Release (hostname u0)], fc1)
                           else if initialScheme = js ''https:'' \<and> protocol nextUrl \<noteq> js ''https:''
                           then (Inl (Err (js ''Blocked insecure redirect'')),
                                 guard @ [HttpGet (href current), Release (hostname u0)], fc1)
                           else if href nextUrl \<in> set seen
                           then (Inr (Fetched current r), guard @ [HttpGet (href current)], fc1)
                           else if Suc redirectCount > 5
                           then (Inl (Err (js ''Too many redirects'')),
                                 guard @ [HttpGet (href current), Release (hostname u0)], fc1)
                           else
                             (let rest = redirect_loop cfg env ttl now u0 initialScheme nextUrl
                                           (href nextUrl # seen) (Suc redirectCount) fc1
                              in (fst rest, guard @ [HttpGet (href current)] @ fst (snd rest),
                                  snd (snd rest)))))
             else
               (case fst cached of
                  Some ent \<Rightarrow>
                    if reply_status r = 304
                    then (Inr (FromCache ent),
                          guard @ [HttpGet (href current), Release (hostname u0), Count (js ''cacheHits'')], fc1)
                    else (Inr (Fetched current r), guard @ [HttpGet (href current)], fc1)
                | None \<Rightarrow> (Inr (Fetched current r), guard @ [HttpGet (href current)], fc1))))"
  by pat_completeness auto
termination
  by (relation "measure (\<lambda>(cfg, env, ttl, now, u0, initialScheme, current, seen, redirectCount, fc).
                           6 - redirectCount)") auto

declare redirect_loop.simps [simp del]

text \<open>
  The fetch tool up to the response it goes on to read: the pre-flight checks, the cache
  check on the given URL, \<open>acquireWeb\<close>, the loop, and the test of \<open>resp.ok\<close>.
\<close>

definition web_fetch ::
  "web_config \<Rightarrow> fetch_env \<Rightarrow> int \<Rightarrow> int \<Rightarrow> fetch_cache \<Rightarrow> jsstring
     \<Rightarrow> (web_error + fetched) \<times> web_event list \<times> fetch_cache" where
  "web_fetch cfg env ttl now fc ident =
     (case parse_url env ident of
        None \<Rightarrow> (Inl (Err (js ''id must be a valid URL'')), [], fc)
      | Some u0 \<Rightarrow>
          if username u0 \<noteq> [] \<or> password u0 \<noteq> []
          then (Inl (Err (js ''URL with credentials not allowed'')), [], fc)
          else if protocol u0 \<notin> {js ''http:'', js ''https:''}
          then (Inl (Err (js ''Only http/https URLs are supported'')), [], fc)
          else if isBlockedHost cfg (hostname u0) \<or> \<not> isAllowedHost cfg (hostname u0)
          then (Inl (Err (js ''URL host is not allowed'')), [], fc)
          else
            (case fetchCacheGet ttl fc (href u0) now of
               (Some cached0, fc0) \<Rightarrow> (Inr (FromCache cached0), [Count (js ''cacheHits'')], fc0)
             | (None, fc0) \<Rightarrow>
                 (let run = redirect_loop cfg env ttl now u0 (protocol u0) u0 [] 0 fc0;
                      events = Acquire (hostname u0) # fst (snd run)
                  in case fst run of
                       Inl e \<Rightarrow> (Inl e, events, snd (snd run))
                     | Inr (FromCache ent) \<Rightarrow> (Inr (FromCache ent), events, snd (snd run))
                     | Inr (Fetched final r) \<Rightarrow>
                         if \<not> reply_ok r
                         then (Inl (HttpFailure (reply_status r)),
                               events @ [Count (js ''errors''), Release (hostname u0)], snd (snd run))
                         else (Inr (Fetched final r), events, snd (snd run)))))"

text \<open>The number of requests in a trace.\<close>

fun get_count :: "web_event list \<Rightarrow> nat" where
  "get_count [] = 0"
| "get_count (HttpGet h # es) = Suc (get_count es)"
| "get_count (_ # es) = get_count es"

text \<open>For the examples: a network where every name resolves to the loopback address and
  every request is answered with 200.\<close>

definition net0 :: fetch_env where
  "net0 = \<lparr>parse_url = parse0,
            resolve_url = (\<lambda>loc base. parse0 loc),
            dns_lookup = (\<lambda>host. Some (IPv4 127 0 0 1)),
            robots_txt_allows = (\<lambda>u. True),
            http_get = (\<lambda>u. Inr \<lparr>reply_status = 200, reply_location = None\<rparr>)\<rparr>"

section \<open>The reference resolver\<close>

text \<open>\<^verbatim>\<open>ref.replace(/\s+/g, ' ').trim()\<close>: every run of white space becomes one space.\<close>

function collapse_ws :: "jsstring \<Rightarrow> jsstring" where
  "collapse_ws [] = []"
| "collapse_ws (c # cs) =
     (if is_space c then 0x20 # collapse_ws (dropWhile is_space cs) else c # collapse_ws cs)"
  by pat_completeness auto
termination
  by (relation "measure length") (auto simp: less_Suc_eq_le length_dropWhile_le)

definition normalizeRef :: "jsstring \<Rightarrow> jsstring" where
  "normalizeRef r = trim (collapse_ws r)"








text \<open>
  For the examples: how the runtime prints an object, an upstream that knows no text, and
  one that knows \<open>Yoma 85b\<close>.
\<close>

definition print0 :: "json \<Rightarrow> jsstring" where
  "print0 v = js ''[object Object]''"



section \<open>Calendar insights\<close>

subsection \<open>Dates of the runtime\<close>

text \<open>
  A \<open>Date\<close> is its time value, milliseconds since the epoch, in UTC. The getters
  \<open>getUTCFullYear\<close>, \<open>getUTCMonth\<close> and \<open>getUTCDate\<close> read the civil date of the day
  number \<open>t div 86400000\<close>; \<open>civil_from_days\<close> computes it (year, month 1..12, day) from
  the 400-year era of the day, the day of the era, the year of the era and the day of the
  year counted from the first of March.
\<close>

definition msPerDay :: int where
  "msPerDay = 86400000"

definition civil_of_mp :: "int \<Rightarrow> int \<Rightarrow> int \<Rightarrow> int \<times> int \<times> int" where
  "civil_of_mp y doy mp =
     (let m = (if mp < 10 then mp + 3 else mp - 9)
      in (if m \<le> 2 then y + 1 else y, m, doy - (153 * mp + 2) div 5 + 1))"

definition civil_of_doy :: "int \<Rightarrow> int \<Rightarrow> int \<times> int \<times> int" where
  "civil_of_doy y doy = civil_of_mp y doy ((5 * doy + 2) div 153)"

definition civil_of_yoe :: "int \<Rightarrow> int \<Rightarrow> int \<Rightarrow> int \<times> int \<times> int" where
  "civil_of_yoe era doe yoe =
     civil_of_doy (yoe + era * 400) (doe - (365 * yoe + yoe div 4 - yoe div 100))"

definition civil_of_doe :: "int \<Rightarrow> int \<Rightarrow> int \<times> int \<times> int" where
  "civil_of_doe era doe =
     civil_of_yoe era doe ((doe - doe div 1460 + doe div 36524 - doe div 146096) div 365)"

definition civil_from_days :: "int \<Rightarrow> int \<times> int \<times> int" where
  "civil_from_days days =
     civil_of_doe ((days + 719468) div 146097) ((days + 719468) mod 146097)"

definition getUTCFullYear :: "int \<Rightarrow> int" where
  "getUTCFullYear t = fst (civil_from_days (t div msPerDay))"

definition getUTCMonth :: "int \<Rightarrow> int" where
  "getUTCMonth t = fst (snd (civil_from_days (t div msPerDay))) - 1"

definition getUTCDate :: "int \<Rightarrow> int" where
  "getUTCDate t = snd (snd (civil_from_days (t div msPerDay)))"

text \<open>
  \<^verbatim>\<open>d.setUTCDate(d.getUTCDate() + i)\<close>: a day beyond the end of the month rolls over, so
  the new time value is \<open>i\<close> days later, at the same time of day.
\<close>

definition addUTCDays :: "int \<Rightarrow> nat \<Rightarrow> int" where
  "addUTCDays t i = t + int i * msPerDay"

text \<open>
  A time value lies within 8.64e15 ms of the epoch; a \<open>Date\<close> set beyond that is invalid,
  its getters yield \<open>NaN\<close>.
\<close>

definition valid_time :: "int \<Rightarrow> bool" where
  "valid_time t \<longleftrightarrow> \<bar>t\<bar> \<le> 8640000000000000"

text \<open>\<open>String(n)\<close> for an integer, and \<open>padStart(w, '0')\<close>.\<close>

function dec :: "nat \<Rightarrow> jsstring" where
  "dec n = (if n < 10 then [0x30 + n] else dec (n div 10) @ [0x30 + n mod 10])"
  by pat_completeness auto
termination
  by (relation "measure id") auto

declare dec.simps [simp del]

definition String_int :: "int \<Rightarrow> jsstring" where
  "String_int n = (if n < 0 then 0x2D # dec (nat (- n)) else dec (nat n))"

definition padStart :: "nat \<Rightarrow> jsstring \<Rightarrow> jsstring" where
  "padStart w s = replicate (w - length s) 0x30 @ s"

text \<open>The \<open>date\<close> of an alert: \<^verbatim>\<open>`${yyyy}-${mm}-${dd}`\<close>.\<close>

definition ymd :: "int \<Rightarrow> jsstring" where
  "ymd t =
     String_int (getUTCFullYear t) @ js ''-''
     @ padStart 2 (String_int (getUTCMonth t + 1)) @ js ''-''
     @ padStart 2 (String_int (getUTCDate t))"

text \<open>
  \<^verbatim>\<open>toISOString().slice(0, 10)\<close>: four digits for the years 0 to 9999, a sign and six digits
  for any other year.
\<close>

definition iso_slice :: "int \<Rightarrow> jsstring" where
  "iso_slice t =
     take 10
       ((let y = getUTCFullYear t in
         if 0 \<le> y \<and> y \<le> 9999 then padStart 4 (dec (nat y))
         else (if y < 0 then js ''-'' else js ''+'') @ padStart 6 (dec (nat \<bar>y\<bar>)))
        @ js ''-'' @ padStart 2 (String_int (getUTCMonth t + 1)) @ js ''-''
        @ padStart 2 (String_int (getUTCDate t)))"

subsection \<open>The tool\<close>

datatype js_error = RangeError | TypeError | URIError

text \<open>\<open>a || b || ...\<close>: the first truthy value, or the last one.\<close>

fun first_truthy :: "json list \<Rightarrow> json" where
  "first_truthy [] = JUndefined"
| "first_truthy [v] = v"
| "first_truthy (v # vs) = (if truthy v then v else first_truthy vs)"

definition holiday_names :: "jsstring list" where
  "holiday_names =
     [js ''rosh hashanah'', js ''yom kippur'', js ''sukkot'', js ''pesach'', js ''passover'',
      js ''shavuot'', js ''purim'', js ''chanukah'', js ''hanukkah'', js ''simchat torah'',
      js ''shemini atzeret'']"

definition classify :: "(json \<Rightarrow> jsstring) \<Rightarrow> case_mapping \<Rightarrow> json \<Rightarrow> jsstring" where
  "classify print tbl item =
     (let titleEn = toLowerCase tbl (String_of print
                      (first_truthy [get_field (get_field item (js ''title'')) (js ''en''),
                                     get_field item (js ''title''), JStr []]));
          cat = toLowerCase tbl
                  (String_of print (first_truthy [get_field item (js ''category''), JStr []]))
      in if str_includes titleEn (js ''parashat hashavua'') then js ''parsha''
         else if startsWith titleEn (js ''haftarah'') then js ''haftarah''
         else if str_includes titleEn (js ''rosh chodesh'') \<or> str_includes titleEn (js ''rosh hodesh'')
         then js ''rosh_chodesh''
         else if str_includes titleEn (js ''fast'') \<or> str_includes titleEn (js ''tzom'') then js ''fast''
         else if str_includes titleEn (js ''shabbat'') then js ''shabbat''
         else if str_includes cat (js ''holiday'') \<or> list_ex (\<lambda>h. str_includes titleEn h) holiday_names
         then js ''chag''
         else if str_includes titleEn (js ''daf yomi'') \<or> str_includes titleEn (js ''yomi'') then js ''daf''
         else js ''other'')"

definition halachaChecklistFor :: "jsstring \<Rightarrow> jsstring list option" where
  "halachaChecklistFor ty =
     (if ty = js ''shabbat''
      then Some [js ''Candle lighting'', js ''Eruv check'', js ''Food prep before Shabbat'', js ''Havdalah'']
      else if ty = js ''fast''
      then Some [js ''Start/End times'', js ''Health exemptions'', js ''Hydration plan'']
      else if ty = js ''chag''
      then Some [js ''Kiddush/Challah'', js ''Eruv Tavshilin (if Fri chag '' @ [0x2192] @ js '' Shabbat)'',
                 js ''Hallel where applicable'']
      else if ty = js ''rosh_chodesh''
      then Some [js ''Ya'' @ [0x2019] @ js ''aleh V'' @ [0x2019] @ js ''Yavo'',
                 js ''Hallel (partial/full as applicable)'']
      else None)"

text \<open>
  \<open>toSefariaUrlFromRef\<close>:
  \<^verbatim>\<open>encodeURIComponent(normalizeRef(ref).replace(/\s+/g, '_'))\<close> between the site and
  \<^verbatim>\<open>?lang=bi\<close>; the URIError of \<open>encodeURIComponent\<close> is not caught.
\<close>

function underscore_ws :: "jsstring \<Rightarrow> jsstring" where
  "underscore_ws [] = []"
| "underscore_ws (c # cs) =
     (if is_space c then 0x5F # underscore_ws (dropWhile is_space cs) else c # underscore_ws cs)"
  by pat_completeness auto
termination
  by (relation "measure length") (auto simp: less_Suc_eq_le length_dropWhile_le)

definition toSefariaUrlFromRef :: "jsstring \<Rightarrow> js_error + jsstring" where
  "toSefariaUrlFromRef r =
     (case encodeURIComponent (underscore_ws (normalizeRef r)) of
        None \<Rightarrow> Inl URIError
      | Some encoded \<Rightarrow> Inr (js ''https://www.sefaria.org/'' @ encoded @ js ''?lang=bi''))"

text \<open>An entry of a day, \<open>rec\<close>, and an element of its \<open>recommendedSources\<close>.\<close>

record rec_source =
  source_title :: jsstring
  source_ref :: json
  source_url :: "jsstring option"

record alert_item =
  alert_type :: jsstring
  alert_title :: jsstring
  alert_ref :: "jsstring option"
  alert_url :: "jsstring option"
  recommendedSources :: "rec_source list option"
  halachaChecklist :: "jsstring list option"

record day_alerts =
  alert_date :: jsstring
  alert_items :: "alert_item list"

record calendar_payload =
  startDate :: jsstring
  endDate :: jsstring
  alerts :: "day_alerts list"

text \<open>
  The test of an item against \<open>interests\<close>:
  \<^verbatim>\<open>interests.some(tag => type.includes(String(tag).toLowerCase()))\<close>, applied when the list
  is given and not empty.
\<close>

definition retained :: "case_mapping \<Rightarrow> jsstring list option \<Rightarrow> jsstring \<Rightarrow> bool" where
  "retained tbl interests ty =
     (case interests of
        None \<Rightarrow> True
      | Some tags \<Rightarrow>
          if length tags > 0 then list_ex (\<lambda>tag. str_includes ty (toLowerCase tbl tag)) tags
          else True)"

text \<open>
  \<^verbatim>\<open>if (item?.url) rec.url = toSefariaUrlFromRef(String(item.url).replace(/_/g, ' '))\<close>.
\<close>

definition entry_url :: "(json \<Rightarrow> jsstring) \<Rightarrow> json \<Rightarrow> js_error + jsstring option" where
  "entry_url print item =
     (if truthy (get_field item (js ''url'')) then
        (case toSefariaUrlFromRef
                (map (\<lambda>c. if c = 0x5F then 0x20 else c) (String_of print (get_field item (js ''url'')))) of
           Inl e \<Rightarrow> Inl e
         | Inr u \<Rightarrow> Inr (Some u))
      else Inr None)"

text \<open>
  The condition of the learning-track source,
  \<^verbatim>\<open>includeLearningTracks && (type === 'daf' || (item?.title?.en || '').toLowerCase().includes('yomi'))\<close>:
  evaluated from the left, and a truthy \<open>title.en\<close> that is not a string has no method
  \<open>toLowerCase\<close>, which is a TypeError.
\<close>

definition wants_track ::
  "case_mapping \<Rightarrow> bool \<Rightarrow> jsstring \<Rightarrow> json \<Rightarrow> js_error + bool" where
  "wants_track tbl includeLearningTracks ty item =
     (if \<not> includeLearningTracks then Inr False
      else if ty = js ''daf'' then Inr True
      else (case first_truthy [get_field (get_field item (js ''title'')) (js ''en''), JStr []] of
              JStr s \<Rightarrow> Inr (str_includes (toLowerCase tbl s) (js ''yomi''))
            | _ \<Rightarrow> Inl TypeError))"

text \<open>\<^verbatim>\<open>rs.filter((e) => e.title && (e.ref || e.url))\<close>.\<close>

definition source_ok :: "rec_source \<Rightarrow> bool" where
  "source_ok e \<longleftrightarrow>
     source_title e \<noteq> []
     \<and> (truthy (source_ref e) \<or> (case source_url e of Some u \<Rightarrow> u \<noteq> [] | None \<Rightarrow> False))"

text \<open>
  The body of \<^verbatim>\<open>for (const item of items)\<close> after the filter, in the order of the source:
  title, \<open>ref\<close>, \<open>url\<close>, the source of a parsha, the learning-track source, the checklist. In
  the learning-track source, \<open>rec.url\<close> is set whenever \<open>item.url\<close> is truthy, so the
  alternative of \<^verbatim>\<open>rec.url || (item?.url ? ... : undefined)\<close> is \<open>undefined\<close>.
\<close>

definition make_item ::
  "(json \<Rightarrow> jsstring) \<Rightarrow> case_mapping \<Rightarrow> bool \<Rightarrow> json \<Rightarrow> js_error + alert_item" where
  "make_item print tbl includeLearningTracks item =
     (let ty = classify print tbl item;
          rec_title = String_of print
            (first_truthy [get_field (get_field item (js ''title'')) (js ''en''),
                           get_field item (js ''title''),
                           get_field (get_field item (js ''displayValue'')) (js ''en''),
                           get_field item (js ''displayValue''), JStr (js ''Calendar'')]);
          rec_ref = (if truthy (get_field item (js ''ref''))
                 then Some (normalizeRef (String_of print (get_field item (js ''ref'')))) else None)
      in case entry_url print item of
           Inl e \<Rightarrow> Inl e
         | Inr rec_url \<Rightarrow>
             (case wants_track tbl includeLearningTracks ty item of
                Inl e \<Rightarrow> Inl e
              | Inr track \<Rightarrow>
                  (let rs =
                         (if ty = js ''parsha''
                          then [\<lparr>source_title = rec_title,
                                 source_ref = (case rec_ref of Some r \<Rightarrow> JStr r | None \<Rightarrow> JUndefined),
                                 source_url = rec_url\<rparr>]
                          else [])
                         @ (if track
                            then [\<lparr>source_title = String_of print
                                     (first_truthy [get_field (get_field item (js ''displayValue'')) (js ''en''),
                                                    get_field item (js ''displayValue''), JStr []]),
                                   source_ref = first_truthy [get_field item (js ''ref''),
                                                              get_field item (js ''url'')],
                                   source_url = rec_url\<rparr>]
                            else [])
                   in Inr \<lparr>alert_type = ty, alert_title = rec_title, alert_ref = rec_ref,
                           alert_url = rec_url,
                           recommendedSources = (if rs \<noteq> [] then Some (filter source_ok rs) else None),
                           halachaChecklist = halachaChecklistFor ty\<rparr>)))"

text \<open>A loop whose body may throw: the results in order, or the first error.\<close>

fun collect :: "('e + 'a) list \<Rightarrow> 'e + 'a list" where
  "collect [] = Inr []"
| "collect (Inl e # rs) = Inl e"
| "collect (Inr x # rs) = (case collect rs of Inl e \<Rightarrow> Inl e | Inr xs \<Rightarrow> Inr (x # xs))"

text \<open>
  The upstream \<open>calendars\<close> call for a day, by the query parameters \<open>year\<close>, \<open>month\<close>, \<open>day\<close>,
  \<open>diaspora\<close> and \<open>timezone\<close>; \<open>None\<close> when the call fails, which \<^verbatim>\<open>.catch(() => ({}))\<close> turns
  into a day without items.
\<close>

type_synonym calendars_api = "jsstring \<Rightarrow> jsstring \<Rightarrow> jsstring \<Rightarrow> bool \<Rightarrow> jsstring option \<Rightarrow> json option"

definition calendar_items :: "json option \<Rightarrow> json list" where
  "calendar_items j =
     (case j of
        Some v \<Rightarrow> (case get_field v (js ''calendar_items'') of JArr xs \<Rightarrow> xs | _ \<Rightarrow> [])
      | None \<Rightarrow> [])"

text \<open>
  The items of a day: an item that fails the test of \<open>interests\<close> is skipped
  (\<open>continue\<close>) before anything of it is computed.
\<close>

definition day_items ::
  "(json \<Rightarrow> jsstring) \<Rightarrow> case_mapping \<Rightarrow> bool \<Rightarrow> jsstring list option \<Rightarrow> json list
     \<Rightarrow> js_error + alert_item list" where
  "day_items print tbl includeLearningTracks interests items =
     collect (map (make_item print tbl includeLearningTracks)
                (filter (\<lambda>item. retained tbl interests (classify print tbl item)) items))"

text \<open>
  One turn of the loop \<^verbatim>\<open>for (let i = 0; i < 7; i++)\<close>, for the three strings \<open>yyyy\<close>, \<open>mm\<close>
  and \<open>dd\<close> it has computed: the upstream call for that day, the classification of its
  items, the filter.
\<close>

definition day_of_date ::
  "(json \<Rightarrow> jsstring) \<Rightarrow> case_mapping \<Rightarrow> calendars_api \<Rightarrow> bool \<Rightarrow> bool \<Rightarrow> jsstring list option
     \<Rightarrow> jsstring option \<Rightarrow> jsstring \<Rightarrow> jsstring \<Rightarrow> jsstring \<Rightarrow> js_error + day_alerts" where
  "day_of_date print tbl calendars diaspora includeLearningTracks interests timezone yyyy mm dd =
     (case day_items print tbl includeLearningTracks interests
             (calendar_items
                (calendars yyyy mm dd diaspora
                   (case timezone of Some tz \<Rightarrow> if tz \<noteq> [] then Some tz else None | None \<Rightarrow> None))) of
        Inl e \<Rightarrow> Inl e
      | Inr dayItems \<Rightarrow> Inr \<lparr>alert_date = yyyy @ js ''-'' @ mm @ js ''-'' @ dd, alert_items = dayItems\<rparr>)"

text \<open>
  The date of turn \<open>i\<close>: \<open>start\<close> moved by \<open>i\<close> days. Of an invalid date the year, the
  month and the day all print as \<open>NaN\<close>.
\<close>

definition day_entry ::
  "(json \<Rightarrow> jsstring) \<Rightarrow> case_mapping \<Rightarrow> calendars_api \<Rightarrow> int \<Rightarrow> bool \<Rightarrow> bool \<Rightarrow> jsstring list option
     \<Rightarrow> jsstring option \<Rightarrow> nat \<Rightarrow> js_error + day_alerts" where
  "day_entry print tbl calendars start diaspora includeLearningTracks interests timezone i =
     (if valid_time (addUTCDays start i)
      then day_of_date print tbl calendars diaspora includeLearningTracks interests timezone
             (String_int (getUTCFullYear (addUTCDays start i)))
             (padStart 2 (String_int (getUTCMonth (addUTCDays start i) + 1)))
             (padStart 2 (String_int (getUTCDate (addUTCDays start i))))
      else day_of_date print tbl calendars diaspora includeLearningTracks interests timezone
             (js ''NaN'') (js ''NaN'') (js ''NaN''))"

fun join_comma :: "jsstring list \<Rightarrow> jsstring" where
  "join_comma [] = []"
| "join_comma [s] = s"
| "join_comma (s # ss) = s @ js '','' @ join_comma ss"

definition bool_string :: "bool \<Rightarrow> jsstring" where
  "bool_string b = (if b then js ''true'' else js ''false'')"

text \<open>The cache key: the start day, the two flags, \<^verbatim>\<open>(interests||[]).join(',')\<close>, the time zone.\<close>

definition calendar_key ::
  "int \<Rightarrow> bool \<Rightarrow> bool \<Rightarrow> jsstring list option \<Rightarrow> jsstring option \<Rightarrow> jsstring" where
  "calendar_key start diaspora includeLearningTracks interests timezone =
     js ''cal:'' @ iso_slice start @ js '':'' @ bool_string diaspora @ js '':''
     @ bool_string includeLearningTracks @ js '':''
     @ join_comma (case interests of Some tags \<Rightarrow> tags | None \<Rightarrow> []) @ js '':''
     @ (case timezone of Some tz \<Rightarrow> tz | None \<Rightarrow> [])"

text \<open>
  The handler. \<open>start\<close> is the time value of \<^verbatim>\<open>new Date(startDate + 'T00:00:00Z')\<close>, or of
  \<open>new Date()\<close> without \<open>startDate\<close>; for an invalid date it is \<open>None\<close>, and
  \<open>toISOString\<close> throws a RangeError. A payload found in the shared cache is returned as
  it is; otherwise the seven days are computed and the payload is stored for an hour. An
  error thrown in the loop rejects the call, and nothing is stored.
\<close>

definition calendar_insights ::
  "(json \<Rightarrow> jsstring) \<Rightarrow> case_mapping \<Rightarrow> calendars_api \<Rightarrow> int \<Rightarrow> calendar_payload cache \<Rightarrow> int option
     \<Rightarrow> bool \<Rightarrow> bool \<Rightarrow> jsstring list option \<Rightarrow> jsstring option
     \<Rightarrow> (js_error + calendar_payload) \<times> calendar_payload cache" where
  "calendar_insights print tbl calendars now cache start diaspora includeLearningTracks interests
     timezone =
     (case start of
        None \<Rightarrow> (Inl RangeError, cache)
      | Some t \<Rightarrow>
          (let key = calendar_key t diaspora includeLearningTracks interests timezone;
               looked = getCache cache key now
           in case fst looked of
                Some cached \<Rightarrow> (Inr cached, snd looked)
              | None \<Rightarrow>
                  (case collect (map (day_entry print tbl calendars t diaspora includeLearningTracks
                                        interests timezone) [0 ..< 7]) of
                     Inl e \<Rightarrow> (Inl e, snd looked)
                   | Inr days \<Rightarrow>
                       (let payload = \<lparr>startDate = iso_slice t, endDate = alert_date (last days),
                                       alerts = days\<rparr>
                        in (Inr payload, setCache (snd looked) key payload (60 * 60000) now)))))"

text \<open>The eight classifications.\<close>

definition alert_types :: "jsstring list" where
  "alert_types = [js ''parsha'', js ''haftarah'', js ''rosh_chodesh'', js ''fast'', js ''shabbat'',
                  js ''chag'', js ''daf'', js ''other'']"

text \<open>
  For the examples: an upstream that lists a parsha, a daf and a fast on every day, the
  week from 2025-01-01 with a parsha and a daf on every day, and the same week without
  items.
\<close>

definition calendars0 :: calendars_api where
  "calendars0 yyyy mm dd diaspora timezone =
     Some (JObj [(js ''calendar_items'',
       JArr [JObj [(js ''title'', JObj [(js ''en'', JStr (js ''Parashat Hashavua''))]),
                   (js ''displayValue'', JObj [(js ''en'', JStr (js ''Vayigash''))]),
                   (js ''ref'', JStr (js ''Genesis 44:18-47:27''))],
             JObj [(js ''title'', JObj [(js ''en'', JStr (js ''Daf Yomi''))]),
                   (js ''displayValue'', JObj [(js ''en'', JStr (js ''Sanhedrin 15''))]),
                   (js ''url'', JStr (js ''Sanhedrin.15''))],
             JObj [(js ''title'', JObj [(js ''en'', JStr (js ''Fast of Tevet''))])]])])"

definition parsha0 :: alert_item where
  "parsha0 =
     \<lparr>alert_type = js ''parsha'', alert_title = js ''Parashat Hashavua'',
      alert_ref = Some (js ''Genesis 44:18-47:27''), alert_url = None,
      recommendedSources =
        Some [\<lparr>source_title = js ''Parashat Hashavua'', source_ref = JStr (js ''Genesis 44:18-47:27''),
               source_url = None\<rparr>],
      halachaChecklist = None\<rparr>"

definition daf0 :: alert_item where
  "daf0 =
     \<lparr>alert_type = js ''daf'', alert_title = js ''Daf Yomi'', alert_ref = None,
      alert_url = Some (js ''https://www.sefaria.org/Sanhedrin.15?lang=bi''),
      recommendedSources =
        Some [\<lparr>source_title = js ''Sanhedrin 15'', source_ref = JStr (js ''Sanhedrin.15''),
               source_url = Some (js ''https://www.sefaria.org/Sanhedrin.15?lang=bi'')\<rparr>],
      halachaChecklist = None\<rparr>"

definition day0 :: "jsstring \<Rightarrow> day_alerts" where
  "day0 date = \<lparr>alert_date = date, alert_items = [parsha0, daf0]\<rparr>"

definition week0 :: calendar_payload where
  "week0 =
     \<lparr>startDate = js ''2025-01-01'', endDate = js ''2025-01-07'',
      alerts = [day0 (js ''2025-01-01''), day0 (js ''2025-01-02''), day0 (js ''2025-01-03''),
                day0 (js ''2025-01-04''), day0 (js ''2025-01-05''), day0 (js ''2025-01-06''),
                day0 (js ''2025-01-07'')]\<rparr>"

definition no_items0 :: calendar_payload where
  "no_items0 =
     \<lparr>startDate = js ''2025-01-01'', endDate = js ''2025-01-07'',
      alerts = map (\<lambda>date. \<lparr>alert_date = date, alert_items = []\<rparr>)
                 [js ''2025-01-01'', js ''2025-01-02'', js ''2025-01-03'', js ''2025-01-04'',
                  js ''2025-01-05'', js ''2025-01-06'', js ''2025-01-07'']\<rparr>"

section \<open>Properties of the caches\<close>

text \<open>
  C2. Whenever \<open>getCache\<close> returns a value at time \<open>now\<close>, the value is the one stored
  under the key and \<open>now\<close> is not after that entry's \<open>expiresAt\<close>; an entry found expired
  is removed from the store before \<open>getCache\<close> returns. The same holds of the fetch cache,
  whose entries expire \<open>CACHE_TTL_MS\<close> after \<open>savedAt\<close>.
\<close>

theorem getCache_never_expired:
  "(getCache cache key now = (Some v, cache') \<longrightarrow>
      (\<exists>e. map_of cache key = Some e \<and> value e = v \<and> now \<le> expiresAt e) \<and> cache' = cache)
   \<and> ((\<exists>e. map_of cache key = Some e \<and> expiresAt e < now) \<longrightarrow>
      fst (getCache cache key now) = None
      \<and> map_of (snd (getCache cache key now)) key = None)
   \<and> (fetchCacheGet ttl fc key now = (Some ent, fc') \<longrightarrow>
      map_of fc key = Some ent \<and> now \<le> savedAt ent + ttl)
   \<and> ((\<exists>e. map_of fc key = Some e \<and> savedAt e + ttl < now) \<longrightarrow>
      fst (fetchCacheGet ttl fc key now) = None
      \<and> map_of (snd (fetchCacheGet ttl fc key now)) key = None)"
proof (intro conjI)
  show "getCache cache key now = (Some v, cache') \<longrightarrow>
      (\<exists>e. map_of cache key = Some e \<and> value e = v \<and> now \<le> expiresAt e) \<and> cache' = cache"
    by (auto simp: getCache_def split: option.splits if_splits)
  show "(\<exists>e. map_of cache key = Some e \<and> expiresAt e < now) \<longrightarrow>
      fst (getCache cache key now) = None \<and> map_of (snd (getCache cache key now)) key = None"
    by (auto simp: getCache_def AList.delete_conv')
  show "fetchCacheGet ttl fc key now = (Some ent, fc') \<longrightarrow>
      map_of fc key = Some ent \<and> now \<le> savedAt ent + ttl"
    by (auto simp: fetchCacheGet_def split: option.splits if_splits)
  show "(\<exists>e. map_of fc key = Some e \<and> savedAt e + ttl < now) \<longrightarrow>
      fst (fetchCacheGet ttl fc key now) = None \<and> map_of (snd (fetchCacheGet ttl fc key now)) key = None"
    by (auto simp: fetchCacheGet_def AList.delete_conv')
qed

theorem getCache_never_expired_witness:
  "getCache [(js ''k'', \<lparr>value = (7::nat), expiresAt = 100\<rparr>)] (js ''k'') 100
     = (Some 7, [(js ''k'', \<lparr>value = 7, expiresAt = 100\<rparr>)])
   \<and> (100::int) \<le> expiresAt \<lparr>value = (7::nat), expiresAt = 100\<rparr>
   \<and> fst (getCache [(js ''k'', \<lparr>value = (7::nat), expiresAt = 100\<rparr>)] (js ''k'') 101) = None
   \<and> map_of (snd (getCache [(js ''k'', \<lparr>value = (7::nat), expiresAt = 100\<rparr>)] (js ''k'') 101))
        (js ''k'') = None
   \<and> fst (fetchCacheGet 300000 [(js ''u'', entry0)] (js ''u'') 301001) = None"
proof -
  let ?c = "[(js ''k'', \<lparr>value = (7::nat), expiresAt = 100\<rparr>)]"
  have a: "getCache ?c (js ''k'') 100 = (Some 7, ?c)" by (simp add: getCache_def js_def)
  have b: "\<exists>e. map_of ?c (js ''k'') = Some e \<and> expiresAt e < 101" by (simp add: js_def)
  have c: "\<exists>e. map_of [(js ''u'', entry0)] (js ''u'') = Some e \<and> savedAt e + 300000 < 301001"
    by (simp add: js_def entry0_def)
  note t1 = getCache_never_expired [where cache = ?c and key = "js ''k''" and now = 100 and v = 7
      and cache' = ?c and ttl = 0 and fc = "[]" and ent = entry0 and fc' = "[]", THEN conjunct1]
  note t2 = getCache_never_expired [where cache = ?c and key = "js ''k''" and now = 101 and v = 7
      and cache' = ?c and ttl = 0 and fc = "[]" and ent = entry0 and fc' = "[]",
      THEN conjunct2, THEN conjunct1]
  note t3 = getCache_never_expired [where cache = ?c and key = "js ''u''" and now = 301001 and v = 7
      and cache' = ?c and ttl = 300000 and fc = "[(js ''u'', entry0)]" and ent = entry0 and fc' = "[]",
      THEN conjunct2, THEN conjunct2, THEN conjunct2]
  from t1 a have "\<exists>e. map_of ?c (js ''k'') = Some e \<and> value e = 7 \<and> 100 \<le> expiresAt e"
    by blast
  then have 1: "(100::int) \<le> expiresAt \<lparr>value = (7::nat), expiresAt = 100\<rparr>" by simp
  from t2 b
  have 2: "fst (getCache ?c (js ''k'') 101) = None \<and> map_of (snd (getCache ?c (js ''k'') 101)) (js ''k'') = None"
    by (rule mp)
  from t3 c
  have 3: "fst (fetchCacheGet 300000 [(js ''u'', entry0)] (js ''u'') 301001) = None"
    by (rule mp [THEN conjunct1])
  from a 1 2 3 show ?thesis by blast
qed

lemma update_fresh_append:
  "k \<notin> fst ` set m \<Longrightarrow> AList.update k v m = m @ [(k, v)]"
  by (induction m) auto

lemma length_update_le: "length (AList.update k v m) \<le> Suc (length m)"
  by (induction m) auto

lemma length_update_present:
  "k \<in> fst ` set m \<Longrightarrow> length (AList.update k v m) = length m"
  by (induction m) auto

lemma keys_ok_delete: "keys_ok m \<Longrightarrow> keys_ok (AList.delete k m)"
  using AList.dom_delete_subset [of k m]
  by (auto simp: keys_ok_def AList.distinct_delete)

lemma keys_ok_update: "keys_ok m \<Longrightarrow> k \<noteq> [] \<Longrightarrow> keys_ok (AList.update k v m)"
  by (auto simp: keys_ok_def AList.distinct_update AList.dom_update)

lemma trim_once:
  assumes "keys_ok m" "m \<noteq> []"
  shows "\<exists>k. first_key m = Some k \<and> k \<noteq> [] \<and> AList.delete k m = tl m"
proof (cases m)
  case Nil
  with assms show ?thesis by simp
next
  case (Cons p ps)
  obtain k v where p: "p = (k, v)" by (cases p)
  with Cons assms have "k \<noteq> []" by (auto simp: keys_ok_def)
  moreover from Cons p assms have "AList.delete k m = tl m"
    by (simp add: keys_ok_def image_iff)
  moreover from Cons p have "first_key m = Some k" by (simp add: first_key_def)
  ultimately show ?thesis by blast
qed

lemma setCache_drop:
  assumes "keys_ok c" "length c \<le> 500" "key \<noteq> []"
  shows "setCache c key v ttlMs now =
           drop (length (AList.update key \<lparr>value = v, expiresAt = now + ttlMs\<rparr> c) - 500)
                (AList.update key \<lparr>value = v, expiresAt = now + ttlMs\<rparr> c)"
proof -
  let ?ins = "AList.update key \<lparr>value = v, expiresAt = now + ttlMs\<rparr> c"
  have ok: "keys_ok ?ins" using assms by (simp add: keys_ok_update)
  have "length ?ins \<le> Suc (length c)" by (rule length_update_le)
  with assms(2) have le: "length ?ins \<le> 501" by simp
  show ?thesis
  proof (cases "length ?ins > 500")
    case False
    then show ?thesis by (simp add: setCache_def Let_def)
  next
    case True
    then have "?ins \<noteq> []" by auto
    from trim_once [OF ok this] obtain k where
      k: "first_key ?ins = Some k" "k \<noteq> []" "AList.delete k ?ins = tl ?ins" by blast
    from True le have "length ?ins - 500 = 1" by simp
    with True k show ?thesis by (simp add: setCache_def Let_def drop_Suc)
  qed
qed


lemma map_of_snoc_fresh:
  "k \<notin> fst ` set m \<Longrightarrow> map_of (m @ [(k, v)]) k = Some v"
  by (induction m) auto

lemma setCache_stores:
  assumes "keys_ok c" "length c \<le> 500" "key \<noteq> []"
  shows "map_of (setCache c key v ttlMs now) key = Some \<lparr>value = v, expiresAt = now + ttlMs\<rparr>"
proof -
  let ?e = "\<lparr>value = v, expiresAt = now + ttlMs\<rparr>"
  let ?ins = "AList.update key ?e c"
  have eq: "setCache c key v ttlMs now = drop (length ?ins - 500) ?ins"
    using assms by (rule setCache_drop)
  show ?thesis
  proof (cases "key \<in> fst ` set c")
    case True
    then have "length ?ins = length c" by (rule length_update_present)
    with assms(2) eq have "setCache c key v ttlMs now = ?ins" by simp
    then show ?thesis by (simp add: AList.update_conv')
  next
    case False
    then have app: "?ins = c @ [(key, ?e)]" by (rule update_fresh_append)
    have "length ?ins - 500 \<le> length c" using app assms(2) by simp
    then have d: "drop (length ?ins - 500) ?ins = drop (length ?ins - 500) c @ [(key, ?e)]"
      using app by simp
    have "key \<notin> fst ` set (drop (length ?ins - 500) c)"
      using False by (auto dest: in_set_dropD)
    then have "map_of (drop (length ?ins - 500) c @ [(key, ?e)]) key = Some ?e"
      by (rule map_of_snoc_fresh)
    with eq d show ?thesis by (simp only:)
  qed
qed

lemma getCache_inv:
  assumes "keys_ok c" "length c \<le> n"
  shows "keys_ok (snd (getCache c k now)) \<and> length (snd (getCache c k now)) \<le> n"
  using assms AList.length_delete_le [of k c]
  by (auto simp: getCache_def keys_ok_delete split: option.splits)

















section \<open>Properties of the chat UI server\<close>

lemma trim_empty_iff: "trim s = [] \<longleftrightarrow> (\<forall>c\<in>set s. is_space c)"
proof
  assume "trim s = []"
  then have "\<forall>c\<in>set (dropWhile is_space s). is_space c"
    by (simp add: trim_def)
  then have "dropWhile is_space s = []"
    by (metis hd_dropWhile list.set_sel(1))
  then show "\<forall>c\<in>set s. is_space c" by simp
next
  assume "\<forall>c\<in>set s. is_space c"
  then have "dropWhile is_space s = []" by simp
  then show "trim s = []" by (simp add: trim_def del: dropWhile_eq_Nil_conv)
qed

text \<open>
  C8. A \<^verbatim>\<open>POST /chat\<close> whose body has no \<open>message\<close>, or whose \<open>message\<close> is not a string,
  or is empty or consists of white space only, is answered with status 400 and the body
  \<^verbatim>\<open>{"error": "Message is required."}\<close>, and the handler runs no chain and posts nothing
  to the MCP endpoint.
\<close>

theorem chat_message_required:
  "(get_field body (js ''message'') = JUndefined
      \<or> (\<forall>s. get_field body (js ''message'') \<noteq> JStr s)
      \<or> (\<exists>s. get_field body (js ''message'') = JStr s \<and> (\<forall>c\<in>set s. is_space c)))
   \<longrightarrow> chat env body =
         (\<lparr>res_status = 400, res_body = JObj [(js ''error'', JStr (js ''Message is required.''))]\<rparr>, [])"
proof
  assume inv: "get_field body (js ''message'') = JUndefined
      \<or> (\<forall>s. get_field body (js ''message'') \<noteq> JStr s)
      \<or> (\<exists>s. get_field body (js ''message'') = JStr s \<and> (\<forall>c\<in>set s. is_space c))"
  show "chat env body =
         (\<lparr>res_status = 400, res_body = JObj [(js ''error'', JStr (js ''Message is required.''))]\<rparr>, [])"
  proof (cases "get_field body (js ''message'')")
    case (JStr m)
    with inv have "\<forall>c\<in>set m. is_space c" by auto
    then have "trim m = []" by (simp add: trim_empty_iff)
    with JStr show ?thesis by (simp add: chat_def Let_def message_required_def)
  qed (simp_all add: chat_def Let_def message_required_def)
qed

theorem chat_message_required_witness:
  "chat env0 (JObj [(js ''message'', JStr (js ''  ''))]) =
     (\<lparr>res_status = 400, res_body = JObj [(js ''error'', JStr (js ''Message is required.''))]\<rparr>, [])
   \<and> chat env0 (JObj [(js ''model'', JStr (js ''m''))]) =
     (\<lparr>res_status = 400, res_body = JObj [(js ''error'', JStr (js ''Message is required.''))]\<rparr>, [])
   \<and> chat env0 (JObj [(js ''message'', JNum 5)]) =
     (\<lparr>res_status = 400, res_body = JObj [(js ''error'', JStr (js ''Message is required.''))]\<rparr>, [])"
proof -
  have a: "get_field (JObj [(js ''message'', JStr (js ''  ''))]) (js ''message'') = JStr (js ''  '')"
    by (simp add: js_def)
  have b: "\<forall>c\<in>set (js ''  ''). is_space c" by (simp add: js_def is_space_def)
  have c: "get_field (JObj [(js ''model'', JStr (js ''m''))]) (js ''message'') = JUndefined"
    by (simp add: js_def)
  have d: "\<forall>s. get_field (JObj [(js ''message'', JNum 5)]) (js ''message'') \<noteq> JStr s"
    by (simp add: js_def)
  from a b have 1: "chat env0 (JObj [(js ''message'', JStr (js ''  ''))]) =
     (\<lparr>res_status = 400, res_body = JObj [(js ''error'', JStr (js ''Message is required.''))]\<rparr>, [])"
    using chat_message_required [of "JObj [(js ''message'', JStr (js ''  ''))]" env0] by blast
  from c have 2: "chat env0 (JObj [(js ''model'', JStr (js ''m''))]) =
     (\<lparr>res_status = 400, res_body = JObj [(js ''error'', JStr (js ''Message is required.''))]\<rparr>, [])"
    using chat_message_required [of "JObj [(js ''model'', JStr (js ''m''))]" env0] by blast
  from d have 3: "chat env0 (JObj [(js ''message'', JNum 5)]) =
     (\<lparr>res_status = 400, res_body = JObj [(js ''error'', JStr (js ''Message is required.''))]\<rparr>, [])"
    using chat_message_required [of "JObj [(js ''message'', JNum 5)]" env0] by blast
  from 1 2 3 show ?thesis by blast
qed


lemma js_mode_distinct:
  "js ''guided_chavruta'' \<noteq> js ''auto_explain''"
  "js ''auto_explain'' \<noteq> js ''guided_chavruta''"
  "js ''guided_chavruta'' \<noteq> js ''insight_layers''"
  "js ''auto_explain'' \<noteq> js ''insight_layers''"
  by (simp_all add: js_def)

text \<open>
  C9. For an accepted message and a request without \<open>mode\<close> (an absent or otherwise falsy
  \<open>mode\<close>), the effective mode is \<open>guided_chavruta\<close> exactly when the lower-cased message
  matches \<^verbatim>\<open>/(help me learn|learn|study|chavruta|teach me)/\<close>, or the message has more than
  one question mark, or a comma, or the substring \<^verbatim>\<open>" and "\<close>; in every other case it is
  \<open>auto_explain\<close>. The handler then runs the chain of that mode and nothing else.
\<close>

theorem chat_default_mode:
  assumes "get_field body (js ''message'') = JStr m" and "trim m \<noteq> []"
    and "\<not> truthy (get_field body (js ''mode''))"
  shows "(effective_mode (lowerCase env) (get_field body (js ''mode'')) m = JStr (js ''guided_chavruta'')
            \<longleftrightarrow> rx_test educational_rx (toLowerCase (lowerCase env) m)
                 \<or> 1 < length (filter (\<lambda>c. c = 0x3F) m)
                 \<or> str_includes m (js '','') \<or> str_includes m (js '' and ''))
     \<and> (effective_mode (lowerCase env) (get_field body (js ''mode'')) m \<noteq> JStr (js ''guided_chavruta'')
            \<longrightarrow> effective_mode (lowerCase env) (get_field body (js ''mode'')) m = JStr (js ''auto_explain''))
     \<and> snd (chat env body) =
          (if rx_test educational_rx (toLowerCase (lowerCase env) m)
                 \<or> 1 < length (filter (\<lambda>c. c = 0x3F) m)
                 \<or> str_includes m (js '','') \<or> str_includes m (js '' and '')
           then [RunChain (js ''chains.guided_chavruta'') [JStr m] (get_field body (js ''model'')) False]
           else [RunChain (js ''chains.auto_explain'')
                   ([JStr m] @ (if truthy (get_field body (js ''model''))
                                then [JStr (js ''--model''), get_field body (js ''model'')] else []))
                   (get_field body (js ''model'')) True])"
proof -
  have m: "m \<noteq> []" using assms(2) by (auto simp: trim_def)
  show ?thesis
    using assms m js_mode_distinct
    by (simp add: chat_def chat_dispatch_def effective_mode_def educational_def multipart_def Let_def)
qed


theorem chat_default_mode_witness:
  "effective_mode (lowerCase env0) (get_field (JObj [(js ''message'', JStr (js ''What is Shabbat?''))]) (js ''mode''))
       (js ''What is Shabbat?'') = JStr (js ''auto_explain'')
   \<and> snd (chat env0 (JObj [(js ''message'', JStr (js ''Teach me Mishnah''))])) =
       [RunChain (js ''chains.guided_chavruta'') [JStr (js ''Teach me Mishnah'')] JUndefined False]"
proof -
  let ?b1 = "JObj [(js ''message'', JStr (js ''What is Shabbat?''))]"
  let ?b2 = "JObj [(js ''message'', JStr (js ''Teach me Mishnah''))]"
  have a1: "get_field ?b1 (js ''message'') = JStr (js ''What is Shabbat?'')" by (simp add: js_def)
  have a2: "trim (js ''What is Shabbat?'') \<noteq> []" by (simp add: trim_def js_def is_space_def)
  have a3: "\<not> truthy (get_field ?b1 (js ''mode''))" by (simp add: js_def)
  have c1: "\<not> (rx_test educational_rx (toLowerCase (lowerCase env0) (js ''What is Shabbat?''))
                 \<or> 1 < length (filter (\<lambda>c. c = 0x3F) (js ''What is Shabbat?''))
                 \<or> str_includes (js ''What is Shabbat?'') (js '','')
                 \<or> str_includes (js ''What is Shabbat?'') (js '' and ''))"
    by (simp add: educational_rx_def js_def toLowerCase_def lower_unit_def in_ranges_def startsWith_def)
  have b1: "get_field ?b2 (js ''message'') = JStr (js ''Teach me Mishnah'')" by (simp add: js_def)
  have b2: "trim (js ''Teach me Mishnah'') \<noteq> []" by (simp add: trim_def js_def is_space_def)
  have b3: "\<not> truthy (get_field ?b2 (js ''mode''))" by (simp add: js_def)
  have b4: "get_field ?b2 (js ''model'') = JUndefined" by (simp add: js_def)
  have c2: "rx_test educational_rx (toLowerCase (lowerCase env0) (js ''Teach me Mishnah''))"
    by (simp add: educational_rx_def js_def toLowerCase_def lower_unit_def in_ranges_def)
  from chat_default_mode [OF a1 a2 a3, of env0] c1
  have 1: "effective_mode (lowerCase env0) (get_field ?b1 (js ''mode'')) (js ''What is Shabbat?'') = JStr (js ''auto_explain'')"
    by blast
  from chat_default_mode [OF b1 b2 b3, of env0] c2 b4
  have 2: "snd (chat env0 ?b2) =
       [RunChain (js ''chains.guided_chavruta'') [JStr (js ''Teach me Mishnah'')] JUndefined False]"
    by simp
  from 1 2 show ?thesis by blast
qed

text \<open>
  C10. \<open>listMcpTools\<close> always settles with a list, never with an error. When the request it
  issues fails, that list is empty. Called while the cached list is less than 60 000 ms old,
  it returns the cached list and issues no request; in particular this holds for every
  call less than 60 000 ms after a refresh that succeeded.
\<close>

theorem listMcpTools_total_cached:
  "(\<exists>ts st' reqs. listMcpTools outcome now st = (Inr ts, st', reqs))
   \<and> (\<forall>err. snd (snd (listMcpTools (Inl err) now st)) \<noteq> []
          \<longrightarrow> fst (listMcpTools (Inl err) now st) = Inr [])
   \<and> (\<forall>ts. cachedTools st = Some ts \<and> now - cachedToolsTimestamp st < 60000
          \<longrightarrow> listMcpTools outcome now st = (Inr ts, st, []))
   \<and> (\<forall>ts. refresh_tools outcome = Inr ts \<and> snd (snd (listMcpTools outcome now st)) \<noteq> []
          \<longrightarrow> fst (listMcpTools outcome now st) = Inr ts
              \<and> (\<forall>outcome' t. t - now < 60000
                    \<longrightarrow> listMcpTools outcome' t (fst (snd (listMcpTools outcome now st)))
                         = (Inr ts, fst (snd (listMcpTools outcome now st)), [])))"
proof (intro conjI allI impI)
  show "\<exists>ts st' reqs. listMcpTools outcome now st = (Inr ts, st', reqs)"
    by (cases "refresh_tools outcome"; cases "cachedTools st")
       (auto simp: listMcpTools_def)
next
  fix err
  assume "snd (snd (listMcpTools (Inl err) now st)) \<noteq> []"
  then show "fst (listMcpTools (Inl err) now st) = Inr []"
    by (cases "cachedTools st") (auto simp: listMcpTools_def refresh_tools_def split: if_splits)
next
  fix ts
  assume "cachedTools st = Some ts \<and> now - cachedToolsTimestamp st < 60000"
  then show "listMcpTools outcome now st = (Inr ts, st, [])"
    by (simp add: listMcpTools_def REFRESH_MS_def)
next
  fix ts
  assume a: "refresh_tools outcome = Inr ts \<and> snd (snd (listMcpTools outcome now st)) \<noteq> []"
  then show "fst (listMcpTools outcome now st) = Inr ts"
    by (cases "cachedTools st") (auto simp: listMcpTools_def split: if_splits)
next
  fix ts outcome' t
  assume a: "refresh_tools outcome = Inr ts \<and> snd (snd (listMcpTools outcome now st)) \<noteq> []"
    and t: "t - now < 60000"
  from a have "fst (snd (listMcpTools outcome now st)) = \<lparr>cachedTools = Some ts, cachedToolsTimestamp = now\<rparr>"
    by (cases "cachedTools st") (auto simp: listMcpTools_def split: if_splits)
  with t show "listMcpTools outcome' t (fst (snd (listMcpTools outcome now st)))
                 = (Inr ts, fst (snd (listMcpTools outcome now st)), [])"
    by (simp add: listMcpTools_def REFRESH_MS_def)
qed


theorem listMcpTools_total_cached_witness:
  "fst (listMcpTools (Inl (js ''MCP HTTP 500: down'')) 1000 initial_tools_state) = Inr []
   \<and> listMcpTools (Inl (js ''MCP HTTP 500: down'')) 60999
        \<lparr>cachedTools = Some [\<lparr>tool_name = JStr (js ''search''), tool_title = JStr (js ''Sefaria Search''),
                               tool_description = JStr (js ''Search Sefaria texts'')\<rparr>],
         cachedToolsTimestamp = 1000\<rparr>
       = (Inr [\<lparr>tool_name = JStr (js ''search''), tool_title = JStr (js ''Sefaria Search''),
                 tool_description = JStr (js ''Search Sefaria texts'')\<rparr>],
          \<lparr>cachedTools = Some [\<lparr>tool_name = JStr (js ''search''), tool_title = JStr (js ''Sefaria Search''),
                               tool_description = JStr (js ''Search Sefaria texts'')\<rparr>],
           cachedToolsTimestamp = 1000\<rparr>, [])"
proof -
  let ?t = "\<lparr>tool_name = JStr (js ''search''), tool_title = JStr (js ''Sefaria Search''),
             tool_description = JStr (js ''Search Sefaria texts'')\<rparr>"
  let ?st = "\<lparr>cachedTools = Some [?t], cachedToolsTimestamp = 1000\<rparr>"
  have a: "snd (snd (listMcpTools (Inl (js ''MCP HTTP 500: down'')) 1000 initial_tools_state)) \<noteq> []"
    by (simp add: listMcpTools_def initial_tools_state_def refresh_tools_def)
  have b: "cachedTools ?st = Some [?t] \<and> 60999 - cachedToolsTimestamp ?st < 60000" by simp
  from listMcpTools_total_cached [of "Inl (js ''MCP HTTP 500: down'')" 1000 initial_tools_state] a
  have 1: "fst (listMcpTools (Inl (js ''MCP HTTP 500: down'')) 1000 initial_tools_state) = Inr []"
    by blast
  from listMcpTools_total_cached [of "Inl (js ''MCP HTTP 500: down'')" 60999 ?st] b
  have 2: "listMcpTools (Inl (js ''MCP HTTP 500: down'')) 60999 ?st = (Inr [?t], ?st, [])"
    by blast
  from 1 2 show ?thesis by blast
qed

section \<open>Properties of the upstream client\<close>

lemma sleeps_append: "sleeps (a @ b) = sleeps a @ sleeps b"
  by (induction a rule: sleeps.induct) auto

lemma sleeps_attempt: "sleeps (attempt_events oc) = []"
  by (cases oc) auto

lemma request_timers_attempt:
  "request_timers (attempt_events oc @ tr) = Some 7000 # request_timers tr"
  by (cases oc) (simp_all add: ABORT_MS_def)

lemma fetch_waits_append: "fetch_waits (a @ b) = fetch_waits a @ fetch_waits b"
  by (induction a rule: fetch_waits.induct) auto

lemma fetch_waits_attempt: "\<exists>w. fetch_waits (attempt_events oc) = [w] \<and> w \<le> 7000"
  by (cases oc) (simp_all add: ABORT_MS_def)

lemma fetch_loop_waits:
  "list_all (\<lambda>w. w \<le> 7000) (fetch_waits (snd (fetch_loop env retries backoffMs attempt lastErr)))"
proof (induction env retries backoffMs attempt lastErr rule: fetch_loop.induct)
  case (1 env retries backoffMs attempt lastErr)
  obtain w where w: "fetch_waits (attempt_events (env attempt)) = [w]" "w \<le> 7000"
    using fetch_waits_attempt by blast
  show ?case
  proof (cases "attempt \<le> retries")
    case False
    then show ?thesis by (simp add: fetch_loop.simps [of env retries backoffMs attempt])
  next
    case True
    show ?thesis
    proof (cases "outcome_result (env attempt)")
      case (Inr j)
      with True w show ?thesis by (simp add: fetch_loop.simps [of env retries backoffMs attempt])
    next
      case (Inl err)
      from "1.IH" [OF True Inl]
      have "list_all (\<lambda>w. w \<le> 7000)
              (fetch_waits (snd (fetch_loop env retries backoffMs (Suc attempt) (Some err))))" .
      with True Inl w show ?thesis
        by (simp add: fetch_loop.simps [of env retries backoffMs attempt] Let_def fetch_waits_append)
    qed
  qed
qed

lemma fetch_loop_shape:
  "attempt \<le> retries \<Longrightarrow>
     \<exists>k. 1 \<le> k \<and> k \<le> Suc retries - attempt
        \<and> request_timers (snd (fetch_loop env retries backoffMs attempt lastErr)) = replicate k (Some 7000)
        \<and> sleeps (snd (fetch_loop env retries backoffMs attempt lastErr))
            = map (\<lambda>n. backoffMs * 2 ^ n) [attempt ..< attempt + k - 1]"
proof (induction env retries backoffMs attempt lastErr rule: fetch_loop.induct)
  case (1 env retries backoffMs attempt lastErr)
  let ?tr = "snd (fetch_loop env retries backoffMs attempt lastErr)"
  show ?case
  proof (cases "outcome_result (env attempt)")
    case (Inr j)
    with "1.prems" have "?tr = attempt_events (env attempt)"
      by (simp add: fetch_loop.simps [of env retries backoffMs attempt])
    then have "request_timers ?tr = replicate 1 (Some 7000)" "sleeps ?tr = []"
      using request_timers_attempt [of "env attempt" "[]"] by (simp_all add: sleeps_attempt)
    then show ?thesis using "1.prems" by (intro exI [of _ 1]) simp
  next
    case (Inl err)
    let ?rest = "snd (fetch_loop env retries backoffMs (Suc attempt) (Some err))"
    show ?thesis
    proof (cases "attempt < retries")
      case True
      with Inl "1.prems" have tr: "?tr = attempt_events (env attempt) @ Sleep (backoffMs * 2 ^ attempt) # ?rest"
        by (simp add: fetch_loop.simps [of env retries backoffMs attempt] Let_def)
      from True have "Suc attempt \<le> retries" by simp
      from "1.IH" [OF "1.prems" Inl this] obtain k where
        k: "1 \<le> k" "k \<le> Suc retries - Suc attempt"
           "request_timers ?rest = replicate k (Some 7000)"
           "sleeps ?rest = map (\<lambda>n. backoffMs * 2 ^ n) [Suc attempt ..< Suc attempt + k - 1]"
        by blast
      have "request_timers ?tr = replicate (Suc k) (Some 7000)"
        using tr k(3) by (simp add: request_timers_attempt)
      moreover have "sleeps ?tr = map (\<lambda>n. backoffMs * 2 ^ n) [attempt ..< attempt + Suc k - 1]"
      proof -
        have "[attempt ..< attempt + Suc k - 1] = attempt # [Suc attempt ..< Suc attempt + k - 1]"
          using k(1) by (simp add: upt_rec)
        then show ?thesis using tr k(4) by (simp add: sleeps_append sleeps_attempt)
      qed
      moreover have "1 \<le> Suc k" "Suc k \<le> Suc retries - attempt" using k(2) True by simp_all
      ultimately show ?thesis by blast
    next
      case False
      with "1.prems" have "attempt = retries" by simp
      with Inl have "?tr = attempt_events (env attempt)"
        by (simp add: fetch_loop.simps [of env retries backoffMs retries]
                      fetch_loop.simps [of env retries backoffMs "Suc retries"] Let_def)
      then have "request_timers ?tr = replicate 1 (Some 7000)" "sleeps ?tr = []"
        using request_timers_attempt [of "env attempt" "[]"] by (simp_all add: sleeps_attempt)
      then show ?thesis using "1.prems" by (intro exI [of _ 1]) simp
    qed
  qed
qed

lemma sorted_backoff: "sorted (map (\<lambda>n. (400::nat) * 2 ^ n) [0 ..< k])"
  by (auto simp: sorted_map sorted_wrt_iff_nth_less intro!: sorted_wrt_mono_rel [of _ "(<)"])



lemma fetch_loop_wait_count:
  "length (fetch_waits (snd (fetch_loop env retries backoffMs attempt lastErr)))
     = length (request_timers (snd (fetch_loop env retries backoffMs attempt lastErr)))"
proof (induction env retries backoffMs attempt lastErr rule: fetch_loop.induct)
  case (1 env retries backoffMs attempt lastErr)
  obtain w where w: "fetch_waits (attempt_events (env attempt)) = [w]"
    using fetch_waits_attempt by blast
  show ?case
  proof (cases "attempt \<le> retries")
    case False
    then show ?thesis by (simp add: fetch_loop.simps [of env retries backoffMs attempt])
  next
    case True
    show ?thesis
    proof (cases "outcome_result (env attempt)")
      case (Inr j)
      with True w show ?thesis
        using request_timers_attempt [of "env attempt" "[]"]
        by (simp add: fetch_loop.simps [of env retries backoffMs attempt])
    next
      case (Inl err)
      let ?rest = "snd (fetch_loop env retries backoffMs (Suc attempt) (Some err))"
      from "1.IH" [OF True Inl]
      have ih: "length (fetch_waits ?rest) = length (request_timers ?rest)" .
      from True Inl w ih show ?thesis
        by (simp add: fetch_loop.simps [of env retries backoffMs attempt] Let_def fetch_waits_append
            request_timers_attempt)
    qed
  qed
qed


text \<open>
  C5 (amended). A call of the upstream client makes at least one and at most three
  requests (two retries). Before each request it arms a timer of 7000 ms whose expiry
  aborts the request, and the wait for \<open>fetch\<close> to settle never lasts longer than that.
  Between attempts it sleeps: sleep number \<open>n\<close>, counted from 0 as the loop counter
  \<open>attempt\<close> is, lasts \<open>400 * 2 ^ n\<close> ms, there is one sleep per retry, and the sleeps never
  decrease. (The timer is cleared when the response arrives; the time to read the body is
  not bounded.)
\<close>

theorem fetchJsonWithRetry_policy:
  "1 \<le> length (request_timers (snd (fetchJsonWithRetry env)))
   \<and> length (request_timers (snd (fetchJsonWithRetry env))) \<le> 3
   \<and> request_timers (snd (fetchJsonWithRetry env))
       = replicate (length (request_timers (snd (fetchJsonWithRetry env)))) (Some 7000)
   \<and> sleeps (snd (fetchJsonWithRetry env))
       = map (\<lambda>n. 400 * 2 ^ n) [0 ..< length (request_timers (snd (fetchJsonWithRetry env))) - 1]
   \<and> sorted (sleeps (snd (fetchJsonWithRetry env)))
   \<and> length (fetch_waits (snd (fetchJsonWithRetry env)))
       = length (request_timers (snd (fetchJsonWithRetry env)))
   \<and> (\<forall>w\<in>set (fetch_waits (snd (fetchJsonWithRetry env))). w \<le> 7000)"
proof -
  let ?tr = "snd (fetchJsonWithRetry env)"
  from fetch_loop_shape [of 0 2 env 400 None] obtain k where
    k: "1 \<le> k" "k \<le> 3" "request_timers ?tr = replicate k (Some 7000)"
       "sleeps ?tr = map (\<lambda>n. 400 * 2 ^ n) [0 ..< k - 1]"
    by (auto simp: fetchJsonWithRetry_def)
  from k(3) have len: "length (request_timers ?tr) = k" by simp
  have "sorted (sleeps ?tr)" unfolding k(4) by (rule sorted_backoff)
  moreover have "length (fetch_waits ?tr) = length (request_timers ?tr)"
    unfolding fetchJsonWithRetry_def by (rule fetch_loop_wait_count)
  moreover have "\<forall>w\<in>set (fetch_waits ?tr). w \<le> 7000"
    using fetch_loop_waits [of env 2 400 0 None] by (simp add: fetchJsonWithRetry_def list_all_iff)
  ultimately show ?thesis using k len by simp
qed

text \<open>
  C5 as stated fails: an attempt whose response arrives after one second and whose body
  takes eight more succeeds after nine seconds; the timer was cleared after the first.
\<close>

theorem fetchJsonWithRetry_timeout_counterexample:
  "fetchJsonWithRetry slow_body =
     (Inr JNull, [StartAbortTimer 7000, Fetch, AwaitFetch 1000, ClearTimer, AwaitBody 8000])
   \<and> attempt_times (snd (fetchJsonWithRetry slow_body)) = [9000]
   \<and> 7000 < hd (attempt_times (snd (fetchJsonWithRetry slow_body)))"
  by (simp add: fetchJsonWithRetry_def fetch_loop.simps slow_body_def ABORT_MS_def)

theorem fetchJsonWithRetry_policy_witness:
  "sleeps (snd (fetchJsonWithRetry no_answer)) = [400, 800]
   \<and> sleeps (snd (fetchJsonWithRetry busy_once)) = [400]
   \<and> fetch_waits (snd (fetchJsonWithRetry no_answer)) = [7000, 7000, 7000]"
proof -
  have a: "length (request_timers (snd (fetchJsonWithRetry no_answer))) = 3"
    by (simp add: fetchJsonWithRetry_def fetch_loop.simps Let_def no_answer_def ABORT_MS_def)
  have b: "length (request_timers (snd (fetchJsonWithRetry busy_once))) = 2"
    by (simp add: fetchJsonWithRetry_def fetch_loop.simps Let_def busy_once_def ABORT_MS_def)
  have c: "[0 ..< 3 - 1] = [0, Suc 0]" "[0 ..< 2 - 1] = [0::nat]" by (simp_all add: upt_rec)
  have d: "fetch_waits (snd (fetchJsonWithRetry no_answer)) = [7000, 7000, 7000]"
    by (simp add: fetchJsonWithRetry_def fetch_loop.simps Let_def no_answer_def ABORT_MS_def)
  from fetchJsonWithRetry_policy [of no_answer] a c
  have 1: "sleeps (snd (fetchJsonWithRetry no_answer)) = [400, 800]" by simp
  from fetchJsonWithRetry_policy [of busy_once] b c
  have 2: "sleeps (snd (fetchJsonWithRetry busy_once)) = [400]" by simp
  from 1 2 d show ?thesis by blast
qed
section \<open>Properties of web search\<close>














section \<open>The SSRF check of web fetch\<close>

lemma loopback_private: "isPrivateOrReserved (IPv4 127 0 0 1)"
  by (simp add: ipToInt_def inRange_def Let_def mask_eq_exp_minus_1)

lemma tool_messages_differ:
  "js ''Blocked by robots.txt'' \<noteq> js ''Blocked: private or loopback address''"
  "js ''URL host is not allowed after redirect'' \<noteq> js ''Blocked: private or loopback address''"
  "js ''Blocked insecure redirect'' \<noteq> js ''Blocked: private or loopback address''"
  "js ''Too many redirects'' \<noteq> js ''Blocked: private or loopback address''"
  "js ''id must be a valid URL'' \<noteq> js ''Blocked: private or loopback address''"
  "js ''URL with credentials not allowed'' \<noteq> js ''Blocked: private or loopback address''"
  "js ''Only http/https URLs are supported'' \<noteq> js ''Blocked: private or loopback address''"
  "js ''URL host is not allowed'' \<noteq> js ''Blocked: private or loopback address''"
  by (simp_all add: js_def)

lemma redirect_loop_no_ssrf_error:
  "fst (redirect_loop cfg env ttl now u0 initialScheme current seen redirectCount fc)
     \<noteq> Inl (Err (js ''Blocked: private or loopback address''))"
proof (induction cfg env ttl now u0 initialScheme current seen redirectCount fc rule: redirect_loop.induct)
  case (1 cfg env ttl now u0 initialScheme current seen redirectCount fc)
  show ?case
    using "1.IH" tool_messages_differ
    by (subst redirect_loop.simps)
       (auto simp: Let_def split: sum.splits option.splits if_splits)
qed

lemma web_fetch_no_ssrf_error:
  "fst (web_fetch cfg env ttl now fc ident) \<noteq> Inl (Err (js ''Blocked: private or loopback address''))"
  using tool_messages_differ redirect_loop_no_ssrf_error
  by (auto simp: web_fetch_def Let_def split: option.splits prod.splits sum.splits fetched.splits if_splits)

lemma web_fetch_eval:
  "web_fetch cfg0 net0 300000 0 [] (js ''http://127.0.0.1/'') =
     (Inr (Fetched loopback_url
            \<lparr>reply_status = 200, reply_location = None\<rparr>),
      [Acquire (js ''127.0.0.1''), Release (js ''127.0.0.1''), HttpGet (js ''http://127.0.0.1/'')], [])"
  by (simp add: web_fetch_def redirect_loop.simps ssrf_block_def net0_def parse0_def loopback_url_def cfg0_def
      isBlockedHost_def isAllowedHost_def isRobotsAllowed_def fetchCacheGet_def is_redirect_def
      reply_ok_def js_def Let_def ipToInt_def inRange_def mask_eq_exp_minus_1)


text \<open>
  C1, the code at \<^verbatim>\<open>fetch{id: "http://127.0.0.1/"}\<close>. The address 127.0.0.1 is classified
  private, and the \<open>try\<close> block of the loop throws \<^verbatim>\<open>Blocked: private or loopback address\<close>
  after releasing the host's slot; its empty \<open>catch\<close> swallows the error. So the tool goes
  on and requests the URL: with the default settings and a server that answers 200, the
  fetch succeeds. No input at all makes the tool fail with that message.
\<close>

theorem web_fetch_loopback_not_rejected:
  "isPrivateOrReserved (IPv4 127 0 0 1)
   \<and> fst (ssrf_block net0 u0 loopback_url)
       = Inl (Err (js ''Blocked: private or loopback address''))
   \<and> web_fetch cfg0 net0 300000 0 [] (js ''http://127.0.0.1/'') =
       (Inr (Fetched loopback_url
              \<lparr>reply_status = 200, reply_location = None\<rparr>),
        [Acquire (js ''127.0.0.1''), Release (js ''127.0.0.1''), HttpGet (js ''http://127.0.0.1/'')], [])
   \<and> fst (web_fetch cfg env ttl now fc ident) \<noteq> Inl (Err (js ''Blocked: private or loopback address''))"
proof -
  have "fst (ssrf_block net0 u0 loopback_url)
       = Inl (Err (js ''Blocked: private or loopback address''))"
    using loopback_private by (simp add: ssrf_block_def net0_def loopback_url_def)
  with loopback_private web_fetch_eval web_fetch_no_ssrf_error show ?thesis by blast
qed

theorem web_fetch_loopback_not_rejected_witness:
  "fst (web_fetch cfg0 net0 300000 0 [] (js ''http://127.0.0.1/''))
     \<noteq> Inl (Err (js ''Blocked: private or loopback address''))
   \<and> HttpGet (js ''http://127.0.0.1/'')
       \<in> set (fst (snd (web_fetch cfg0 net0 300000 0 [] (js ''http://127.0.0.1/''))))"
  using web_fetch_loopback_not_rejected [where cfg = cfg0 and env = net0 and ttl = 300000 and now = 0
      and fc = "[]" and ident = "js ''http://127.0.0.1/''"]
  by simp


subsection \<open>The checks outside the \<open>try\<close> block\<close>

text \<open>
  Robots is consulted before every request, a redirect target is checked against the
  host lists, a fetch that started on https refuses a target on another scheme, and a
  fetch issues at most six requests: the first and five redirects.
\<close>

lemma get_count_append: "get_count (a @ b) = get_count a + get_count b"
  by (induction a rule: get_count.induct) auto

lemma get_count_guard: "get_count (snd (ssrf_block env u0 current)) = 0"
  by (simp add: ssrf_block_def Let_def)

lemma redirect_loop_requests_aux:
  "redirectCount + k = 5 \<Longrightarrow>
     get_count (fst (snd (redirect_loop cfg env ttl now u0 initialScheme current seen redirectCount fc)))
       \<le> Suc k"
proof (induction k arbitrary: current seen redirectCount fc)
  case 0
  then show ?case
    by (subst redirect_loop.simps)
       (auto simp: Let_def get_count_append get_count_guard split: sum.splits option.splits)
next
  case (Suc k)
  then have "Suc redirectCount + k = 5" by simp
  note IH = Suc.IH [OF this]
  show ?case
    by (subst redirect_loop.simps)
       (auto simp: Let_def get_count_append get_count_guard split: sum.splits option.splits
             intro: le_SucI IH)
qed

lemma redirect_loop_requests:
  "get_count (fst (snd (redirect_loop cfg env ttl now u0 initialScheme u0 [] 0 fc))) \<le> 6"
  using redirect_loop_requests_aux [of 0 5] by simp

lemma robots_checked_each_hop:
  "\<not> isRobotsAllowed cfg env current \<Longrightarrow>
     fst (redirect_loop cfg env ttl now u0 initialScheme current seen redirectCount fc)
       = Inl (Err (js ''Blocked by robots.txt''))"
  by (subst redirect_loop.simps) (simp add: Let_def)

lemma redirect_target_checked:
  assumes "isRobotsAllowed cfg env current" "http_get env current = Inr r"
    "is_redirect (reply_status r)" "reply_location r = Some loc" "loc \<noteq> []"
    "resolve_url env loc current = Some nextUrl"
  shows "(isBlockedHost cfg (hostname nextUrl) \<or> \<not> isAllowedHost cfg (hostname nextUrl) \<longrightarrow>
            fst (redirect_loop cfg env ttl now u0 initialScheme current seen redirectCount fc)
              = Inl (Err (js ''URL host is not allowed after redirect'')))
       \<and> (\<not> isBlockedHost cfg (hostname nextUrl) \<and> isAllowedHost cfg (hostname nextUrl)
            \<and> initialScheme = js ''https:'' \<and> protocol nextUrl \<noteq> js ''https:'' \<longrightarrow>
            fst (redirect_loop cfg env ttl now u0 initialScheme current seen redirectCount fc)
              = Inl (Err (js ''Blocked insecure redirect'')))"
  using assms by (subst redirect_loop.simps, subst redirect_loop.simps) (auto simp: Let_def)

section \<open>Properties of the reference resolver\<close>




section \<open>Properties of calendar insights\<close>

lemmas cal_eval = ymd_def getUTCFullYear_def getUTCMonth_def getUTCDate_def civil_from_days_def
  civil_of_doe_def civil_of_yoe_def civil_of_doy_def civil_of_mp_def
  msPerDay_def String_int_def padStart_def dec.simps js_def addUTCDays_def

lemma classify_types: "classify print tbl item \<in> set alert_types"
  by (simp add: classify_def alert_types_def Let_def)

lemma day_of_addUTCDays: "addUTCDays t i div msPerDay = t div msPerDay + int i"
  by (simp add: addUTCDays_def msPerDay_def)

lemma ymd_day: "t div msPerDay = t' div msPerDay \<Longrightarrow> ymd t = ymd t'"
  by (simp add: ymd_def getUTCFullYear_def getUTCMonth_def getUTCDate_def)

lemma ymd_addUTCDays: "ymd (addUTCDays t i) = ymd ((t div msPerDay + int i) * msPerDay)"
  by (rule ymd_day) (simp add: day_of_addUTCDays, simp add: msPerDay_def)

lemma seven: "[0 ..< 7] = [0, 1, 2, 3, 4, 5, 6::nat]"
  by (simp add: upt_rec)

lemma collect_Inr: "collect rs = Inr xs \<Longrightarrow> rs = map Inr xs"
proof (induction rs arbitrary: xs rule: collect.induct)
  case 1
  then show ?case by simp
next
  case (2 e rs)
  then show ?case by simp
next
  case (3 x rs)
  then show ?case by (cases "collect rs") auto
qed

lemma collect_map:
  assumes "collect (map f xs) = Inr ys"
  shows "length ys = length xs" and "\<And>i. i < length xs \<Longrightarrow> f (xs ! i) = Inr (ys ! i)"
proof -
  from assms have eq: "map f xs = map Inr ys" by (rule collect_Inr)
  then show len: "length ys = length xs" by (metis length_map)
  fix i
  assume "i < length xs"
  with eq len show "f (xs ! i) = Inr (ys ! i)" by (metis nth_map)
qed

lemma make_item_type:
  "make_item print tbl ilt item = Inr it \<Longrightarrow> alert_type it = classify print tbl item"
  by (auto simp: make_item_def Let_def split: sum.splits)

lemma day_items_types:
  assumes "day_items print tbl ilt interests items = Inr its"
  shows "map alert_type its =
           map (classify print tbl) (filter (\<lambda>item. retained tbl interests (classify print tbl item)) items)"
proof -
  let ?kept = "filter (\<lambda>item. retained tbl interests (classify print tbl item)) items"
  from assms have c: "collect (map (make_item print tbl ilt) ?kept) = Inr its"
    by (simp add: day_items_def)
  from collect_map [OF c] have len: "length its = length ?kept"
    and nth: "\<And>i. i < length ?kept \<Longrightarrow> make_item print tbl ilt (?kept ! i) = Inr (its ! i)"
    by blast+
  show ?thesis
  proof (rule nth_equalityI)
    show "length (map alert_type its) = length (map (classify print tbl) ?kept)"
      using len by simp
  next
    fix i
    assume "i < length (map alert_type its)"
    then have i: "i < length ?kept" using len by simp
    from make_item_type [OF nth [OF i]] i len
    show "map alert_type its ! i = map (classify print tbl) ?kept ! i" by simp
  qed
qed

lemma day_entry_shape:
  assumes "day_entry print tbl calendars t diaspora ilt interests timezone i = Inr d"
    and "valid_time (addUTCDays t i)"
  shows "alert_date d = ymd (addUTCDays t i)"
    and "\<forall>it\<in>set (alert_items d).
           alert_type it \<in> set alert_types \<and> retained tbl interests (alert_type it)"
proof -
  let ?items = "calendar_items
                  (calendars (String_int (getUTCFullYear (addUTCDays t i)))
                     (padStart 2 (String_int (getUTCMonth (addUTCDays t i) + 1)))
                     (padStart 2 (String_int (getUTCDate (addUTCDays t i)))) diaspora
                     (case timezone of Some tz \<Rightarrow> if tz \<noteq> [] then Some tz else None | None \<Rightarrow> None))"
  from assms obtain its where
    its: "day_items print tbl ilt interests ?items = Inr its"
    and d: "d = \<lparr>alert_date = ymd (addUTCDays t i), alert_items = its\<rparr>"
    by (auto simp: day_entry_def day_of_date_def ymd_def split: sum.splits)
  from d show "alert_date d = ymd (addUTCDays t i)" by simp
  from day_items_types [OF its]
  have "set (map alert_type its)
          \<subseteq> {ty. ty \<in> set alert_types \<and> retained tbl interests ty}"
    using classify_types by auto
  with d show "\<forall>it\<in>set (alert_items d).
           alert_type it \<in> set alert_types \<and> retained tbl interests (alert_type it)"
    by auto
qed

lemma valid_time_between:
  assumes "valid_time t" and "valid_time (addUTCDays t 6)" and "i < 7"
  shows "valid_time (addUTCDays t i)"
  using assms by (auto simp: valid_time_def addUTCDays_def msPerDay_def)

lemma retained_tags:
  "retained tbl (Some tags) ty \<Longrightarrow> tags \<noteq> []
     \<Longrightarrow> \<exists>tag\<in>set tags. str_includes ty (toLowerCase tbl tag)"
  by (auto simp: retained_def list_ex_iff)

text \<open>
  What a call that computes its answer returns. When the key is not in the cache, the
  seven days from the start are valid dates and no item makes the loop throw, the payload
  has one entry for each of the days \<open>D\<close>, ..., \<open>D + 6\<close> in this order, \<open>endDate\<close> is the
  last of them, every item carries one of the eight classifications, and with a
  non-empty \<open>interests\<close> every item's classification contains one of the tags in lower
  case.
\<close>

lemma calendar_insights_computed:
  assumes miss: "fst (getCache cache (calendar_key t diaspora ilt interests timezone) now) = None"
    and valid: "valid_time t" "valid_time (addUTCDays t 6)"
    and res: "fst (calendar_insights print tbl calendars now cache (Some t) diaspora ilt interests timezone)
                = Inr p"
  shows "map alert_date (alerts p) = map (\<lambda>i. ymd ((t div msPerDay + int i) * msPerDay)) [0 ..< 7]"
    and "endDate p = ymd ((t div msPerDay + 6) * msPerDay)"
    and "\<forall>day\<in>set (alerts p). \<forall>it\<in>set (alert_items day).
           alert_type it \<in> set alert_types
           \<and> (\<forall>tags. interests = Some tags \<and> tags \<noteq> []
                 \<longrightarrow> (\<exists>tag\<in>set tags. str_includes (alert_type it) (toLowerCase tbl tag)))"
proof -
  let ?f = "day_entry print tbl calendars t diaspora ilt interests timezone"
  from miss res obtain days where
    c: "collect (map ?f [0 ..< 7]) = Inr days"
    and p: "p = \<lparr>startDate = iso_slice t, endDate = alert_date (last days), alerts = days\<rparr>"
    by (auto simp: calendar_insights_def Let_def split: sum.splits)
  from collect_map [OF c] have len: "length days = 7"
    and nth: "\<And>i. i < 7 \<Longrightarrow> ?f i = Inr (days ! i)"
    by simp_all
  have day: "\<And>i. i < 7 \<Longrightarrow> alert_date (days ! i) = ymd ((t div msPerDay + int i) * msPerDay)"
    using day_entry_shape(1) [OF nth valid_time_between [OF valid]] ymd_addUTCDays by simp
  show "map alert_date (alerts p) = map (\<lambda>i. ymd ((t div msPerDay + int i) * msPerDay)) [0 ..< 7]"
  proof (rule nth_equalityI)
    show "length (map alert_date (alerts p))
            = length (map (\<lambda>i. ymd ((t div msPerDay + int i) * msPerDay)) [0 ..< 7])"
      using p len by simp
  next
    fix i
    assume "i < length (map alert_date (alerts p))"
    then have "i < 7" using p len by simp
    with day [of i] p len
    show "map alert_date (alerts p) ! i
            = map (\<lambda>i. ymd ((t div msPerDay + int i) * msPerDay)) [0 ..< 7] ! i"
      by simp
  qed
  from len have "days \<noteq> []" by auto
  then have "last days = days ! 6" using len by (simp add: last_conv_nth)
  with day [of 6] p show "endDate p = ymd ((t div msPerDay + 6) * msPerDay)" by simp
  show "\<forall>day\<in>set (alerts p). \<forall>it\<in>set (alert_items day).
           alert_type it \<in> set alert_types
           \<and> (\<forall>tags. interests = Some tags \<and> tags \<noteq> []
                 \<longrightarrow> (\<exists>tag\<in>set tags. str_includes (alert_type it) (toLowerCase tbl tag)))"
  proof (intro ballI)
    fix d it
    assume "d \<in> set (alerts p)" and it: "it \<in> set (alert_items d)"
    then obtain i where i: "i < 7" "d = days ! i"
      using p len by (auto simp: in_set_conv_nth)
    from day_entry_shape(2) [OF nth [OF i(1)] valid_time_between [OF valid i(1)]] i(2) it
    have "alert_type it \<in> set alert_types" "retained tbl interests (alert_type it)" by auto
    then show "alert_type it \<in> set alert_types
           \<and> (\<forall>tags. interests = Some tags \<and> tags \<noteq> []
                 \<longrightarrow> (\<exists>tag\<in>set tags. str_includes (alert_type it) (toLowerCase tbl tag)))"
      using retained_tags by blast
  qed
qed

lemma calendar_key_nonempty: "calendar_key t diaspora ilt interests timezone \<noteq> []"
  by (simp add: calendar_key_def js_def)

lemma calendar_key_join:
  "join_comma (case i1 of Some tags \<Rightarrow> tags | None \<Rightarrow> [])
     = join_comma (case i2 of Some tags \<Rightarrow> tags | None \<Rightarrow> [])
   \<Longrightarrow> calendar_key t diaspora ilt i1 timezone = calendar_key t diaspora ilt i2 timezone"
  by (simp add: calendar_key_def)

text \<open>
  The days and the items of the examples, whatever date the upstream is asked for.
\<close>

lemma day_items_example:
  "day_items print0 lower0 True (Some [js ''daf'', js ''parsha''])
     (calendar_items (calendars0 yyyy mm dd diaspora timezone)) = Inr [parsha0, daf0]"
  by (simp add: day_items_def calendar_items_def calendars0_def make_item_def classify_def
      retained_def entry_url_def wants_track_def toSefariaUrlFromRef_def encodeURIComponent_def
      encode_point_def uri_unreserved_def source_ok_def halachaChecklistFor_def String_of_def
      toLowerCase_def lower_unit_def normalizeRef_def trim_def is_space_def holiday_names_def
      startsWith_def parsha0_def daf0_def js_def Let_def)

lemma day_items_unmatched:
  "day_items print0 lower0 True (Some [js ''daf,parsha''])
     (calendar_items (calendars0 yyyy mm dd diaspora timezone)) = Inr []"
  by (simp add: day_items_def calendar_items_def calendars0_def classify_def
      retained_def String_of_def toLowerCase_def lower_unit_def holiday_names_def
      startsWith_def js_def Let_def)

lemma example_dates:
  "ymd (addUTCDays 1735689600000 0) = js ''2025-01-01''"
  "ymd (addUTCDays 1735689600000 1) = js ''2025-01-02''"
  "ymd (addUTCDays 1735689600000 (Suc 0)) = js ''2025-01-02''"
  "ymd (addUTCDays 1735689600000 2) = js ''2025-01-03''"
  "ymd (addUTCDays 1735689600000 3) = js ''2025-01-04''"
  "ymd (addUTCDays 1735689600000 4) = js ''2025-01-05''"
  "ymd (addUTCDays 1735689600000 5) = js ''2025-01-06''"
  "ymd (addUTCDays 1735689600000 6) = js ''2025-01-07''"
  "iso_slice 1735689600000 = js ''2025-01-01''"
  by (simp_all add: cal_eval iso_slice_def Let_def)

lemma day_entry_example:
  "i < 7 \<Longrightarrow>
     day_entry print0 lower0 calendars0 1735689600000 True True (Some [js ''daf'', js ''parsha'']) None i
       = Inr (day0 (ymd (addUTCDays 1735689600000 i)))"
  by (simp add: day_entry_def day_of_date_def day_items_example day0_def ymd_def valid_time_def
      addUTCDays_def msPerDay_def)

lemma day_entry_unmatched:
  "i < 7 \<Longrightarrow>
     day_entry print0 lower0 calendars0 1735689600000 True True (Some [js ''daf,parsha'']) None i
       = Inr \<lparr>alert_date = ymd (addUTCDays 1735689600000 i), alert_items = []\<rparr>"
  by (simp add: day_entry_def day_of_date_def day_items_unmatched ymd_def valid_time_def
      addUTCDays_def msPerDay_def)

lemma week_example:
  "fst (calendar_insights print0 lower0 calendars0 now [] (Some 1735689600000) True True
          (Some [js ''daf'', js ''parsha'']) None) = Inr week0"
proof -
  let ?f = "day_entry print0 lower0 calendars0 1735689600000 True True (Some [js ''daf'', js ''parsha'']) None"
  let ?d = "\<lambda>i. day0 (ymd (addUTCDays 1735689600000 i))"
  have "map ?f [0 ..< 7] = [?f 0, ?f 1, ?f 2, ?f 3, ?f 4, ?f 5, ?f 6]"
    by (simp only: seven list.map)
  also have "\<dots> = [Inr (?d 0), Inr (?d 1), Inr (?d 2), Inr (?d 3), Inr (?d 4), Inr (?d 5), Inr (?d 6)]"
    by (simp only: day_entry_example)
  finally have days: "collect (map ?f [0 ..< 7]) = Inr [?d 0, ?d 1, ?d 2, ?d 3, ?d 4, ?d 5, ?d 6]"
    by simp
  show ?thesis
    by (simp add: calendar_insights_def getCache_def days example_dates week0_def day0_def Let_def)
qed

lemma unmatched_example:
  "fst (calendar_insights print0 lower0 calendars0 now [] (Some 1735689600000) True True
          (Some [js ''daf,parsha'']) None) = Inr no_items0"
proof -
  let ?f = "day_entry print0 lower0 calendars0 1735689600000 True True (Some [js ''daf,parsha'']) None"
  let ?d = "\<lambda>i. \<lparr>alert_date = ymd (addUTCDays 1735689600000 i), alert_items = []\<rparr>"
  have "map ?f [0 ..< 7] = [?f 0, ?f 1, ?f 2, ?f 3, ?f 4, ?f 5, ?f 6]"
    by (simp only: seven list.map)
  also have "\<dots> = [Inr (?d 0), Inr (?d 1), Inr (?d 2), Inr (?d 3), Inr (?d 4), Inr (?d 5), Inr (?d 6)]"
    by (simp only: day_entry_unmatched)
  finally have days: "collect (map ?f [0 ..< 7]) = Inr [?d 0, ?d 1, ?d 2, ?d 3, ?d 4, ?d 5, ?d 6]"
    by simp
  show ?thesis
    by (simp add: calendar_insights_def getCache_def days example_dates no_items0_def Let_def)
qed


text \<open>
  C7. The claim fails on a call that is answered from the cache under a key that another
  list of interests produced. The key holds the interests joined by commas, so two lists
  with the same joined text share it. When a call with the first list has computed and
  stored its payload, a call with the second list for the same start day, flags and time
  zone, made within the hour, returns that payload as it is, whatever the upstream would
  answer now: the items were filtered by the first list, not by the second, and an item
  of the payload that the second list excludes is returned all the same.
\<close>

theorem calendar_insights_key_collision:
  assumes "join_comma (case i1 of Some tags \<Rightarrow> tags | None \<Rightarrow> [])
             = join_comma (case i2 of Some tags \<Rightarrow> tags | None \<Rightarrow> [])"
    and "keys_ok cache" and "length cache \<le> 500"
    and "fst (getCache cache (calendar_key t diaspora ilt i1 timezone) now1) = None"
    and "fst (calendar_insights print tbl calendars1 now1 cache (Some t) diaspora ilt i1 timezone) = Inr p"
    and "now2 \<le> now1 + 3600000"
    and "day \<in> set (alerts p)" and "it \<in> set (alert_items day)"
    and "\<not> retained tbl i2 (alert_type it)"
  shows "fst (calendar_insights print tbl calendars2 now2
                (snd (calendar_insights print tbl calendars1 now1 cache (Some t) diaspora ilt i1 timezone))
                (Some t) diaspora ilt i2 timezone) = Inr p
         \<and> (\<exists>day\<in>set (alerts p). \<exists>it\<in>set (alert_items day). \<not> retained tbl i2 (alert_type it))"
proof -
  let ?key = "calendar_key t diaspora ilt i1 timezone"
  let ?looked = "snd (getCache cache ?key now1)"
  from assms(2,3) getCache_inv [of cache 500 ?key now1]
  have ok: "keys_ok ?looked" "length ?looked \<le> 500" by simp_all
  from assms(4,5) have first:
    "snd (calendar_insights print tbl calendars1 now1 cache (Some t) diaspora ilt i1 timezone)
       = setCache ?looked ?key p 3600000 now1"
    by (auto simp: calendar_insights_def Let_def split: sum.splits)
  from setCache_stores [OF ok calendar_key_nonempty, where v = p and ttlMs = 3600000 and now = now1]
  have stored: "map_of (setCache ?looked ?key p 3600000 now1) ?key
                  = Some \<lparr>value = p, expiresAt = now1 + 3600000\<rparr>" .
  have key: "calendar_key t diaspora ilt i2 timezone = ?key"
    using calendar_key_join [OF assms(1)] by simp
  from stored assms(6)
  have "fst (getCache (setCache ?looked ?key p 3600000 now1) ?key now2) = Some p"
    by (simp add: getCache_def)
  then have "fst (calendar_insights print tbl calendars2 now2
                (snd (calendar_insights print tbl calendars1 now1 cache (Some t) diaspora ilt i1 timezone))
                (Some t) diaspora ilt i2 timezone) = Inr p"
    unfolding first by (simp add: calendar_insights_def key Let_def)
  with assms(7-9) show ?thesis by blast
qed

theorem calendar_insights_key_collision_witness:
  "fst (calendar_insights print0 lower0 calendars0 1735700060000
          (snd (calendar_insights print0 lower0 calendars0 1735700000000 [] (Some 1735689600000) True True
                  (Some [js ''daf'', js ''parsha'']) None))
          (Some 1735689600000) True True (Some [js ''daf,parsha'']) None) = Inr week0
   \<and> alert_items (hd (alerts week0)) = [parsha0, daf0]
   \<and> alert_type parsha0 = js ''parsha''
   \<and> retained lower0 (Some [js ''daf,parsha'']) (js ''parsha'') = False
   \<and> fst (calendar_insights print0 lower0 calendars0 1735700060000 [] (Some 1735689600000) True True
            (Some [js ''daf,parsha'']) None) = Inr no_items0"
proof -
  have a: "join_comma (case Some [js ''daf'', js ''parsha''] of Some tags \<Rightarrow> tags | None \<Rightarrow> [])
             = join_comma (case Some [js ''daf,parsha''] of Some tags \<Rightarrow> tags | None \<Rightarrow> [])"
    by (simp add: js_def)
  have b: "keys_ok ([] :: calendar_payload cache)" "length ([] :: calendar_payload cache) \<le> 500"
    by (simp_all add: keys_ok_def)
  have c: "fst (getCache ([] :: calendar_payload cache)
                  (calendar_key 1735689600000 True True (Some [js ''daf'', js ''parsha'']) None)
                  1735700000000) = None"
    by (simp add: getCache_def)
  have d: "(1735700060000::int) \<le> 1735700000000 + 3600000" by simp
  have e: "day0 (js ''2025-01-01'') \<in> set (alerts week0)" by (simp add: week0_def)
  have f: "parsha0 \<in> set (alert_items (day0 (js ''2025-01-01'')))" by (simp add: day0_def)
  have 3: "alert_type parsha0 = js ''parsha''" by (simp add: parsha0_def)
  have 4: "retained lower0 (Some [js ''daf,parsha'']) (js ''parsha'') = False"
    by (simp add: retained_def toLowerCase_def lower_unit_def startsWith_def js_def)
  from 3 4 have g: "\<not> retained lower0 (Some [js ''daf,parsha'']) (alert_type parsha0)" by simp
  from calendar_insights_key_collision [where ?i1.0 = "Some [js ''daf'', js ''parsha'']"
      and ?i2.0 = "Some [js ''daf,parsha'']" and cache = "[]" and t = 1735689600000
      and diaspora = True and ilt = True and timezone = None and ?now1.0 = 1735700000000
      and ?now2.0 = 1735700060000 and print = print0 and tbl = lower0
      and ?calendars1.0 = calendars0 and ?calendars2.0 = calendars0
      and p = week0 and day = "day0 (js ''2025-01-01'')" and it = parsha0,
      OF a b c week_example d e f g]
  have 1: "fst (calendar_insights print0 lower0 calendars0 1735700060000
          (snd (calendar_insights print0 lower0 calendars0 1735700000000 [] (Some 1735689600000) True True
                  (Some [js ''daf'', js ''parsha'']) None))
          (Some 1735689600000) True True (Some [js ''daf,parsha'']) None) = Inr week0"
    by blast
  have 2: "alert_items (hd (alerts week0)) = [parsha0, daf0]"
    by (simp add: week0_def day0_def)
  from 1 2 3 4 unmatched_example [of 1735700060000] show ?thesis by blast
qed

end
